theory Spec2Isabelle
  imports Main
begin

section \<open>Python strings and paths used by check\_artwork.py\<close>

text \<open>
  Python \<open>str\<close> values are modelled as \<open>string\<close>. The functions of this section
  are the run-time operations the module calls on them: \<open>str.startswith\<close>, the
  \<open>in\<close> operator on strings, \<open>str.join\<close>, the decimal rendering of an integer
  by \<open>%s\<close> and \<open>%d\<close>, \<open>os.path.join\<close> and \<open>os.path.splitext\<close> (POSIX flavour).
\<close>

definition newline :: char where
  "newline = CHR 0x0A"

definition startswith :: "string \<Rightarrow> string \<Rightarrow> bool" where
  "startswith s p = (take (length p) s = p)"

definition endswith :: "string \<Rightarrow> string \<Rightarrow> bool" where
  "endswith s p = (length p \<le> length s \<and> drop (length s - length p) s = p)"

text \<open>\<open>str_in sub s\<close> is Python's \<open>sub in s\<close>: \<open>sub\<close> occurs in \<open>s\<close> as a contiguous run.\<close>

fun str_in :: "string \<Rightarrow> string \<Rightarrow> bool" where
  "str_in sub [] = (sub = [])"
| "str_in sub (c # cs) = (startswith (c # cs) sub \<or> str_in sub cs)"

fun str_join :: "string \<Rightarrow> string list \<Rightarrow> string" where
  "str_join sep [] = []"
| "str_join sep [x] = x"
| "str_join sep (x # y # ys) = x @ sep @ str_join sep (y # ys)"

definition digit_char :: "nat \<Rightarrow> char" where
  "digit_char d = ''0123456789'' ! d"

fun str_nat :: "nat \<Rightarrow> string" where
  "str_nat n = (if n < 10 then [digit_char n] else str_nat (n div 10) @ [digit_char (n mod 10)])"

definition str_int :: "int \<Rightarrow> string" where
  "str_int i = (if i < 0 then ''-'' @ str_nat (nat (- i)) else str_nat (nat i))"

text \<open>\<open>"%dx%d" % (w, h)\<close> and \<open>"%sx%s" % (w, h)\<close> on integers.\<close>

definition fmt_size :: "int \<times> int \<Rightarrow> string" where
  "fmt_size wh = str_int (fst wh) @ ''x'' @ str_int (snd wh)"

text \<open>
  \<open>posixpath.join(a, b)\<close>: an absolute \<open>b\<close> replaces \<open>a\<close>; otherwise the two are
  concatenated with one separator unless \<open>a\<close> is empty or already ends with one.
\<close>

definition path_join :: "string \<Rightarrow> string \<Rightarrow> string" where
  "path_join a b =
     (if startswith b ''/'' then b
      else if a = [] \<or> endswith a ''/'' then a @ b
      else a @ ''/'' @ b)"

text \<open>\<open>str.rfind(c)\<close> for a single character: the last index of \<open>c\<close>, or \<open>-1\<close>.\<close>

definition rfind :: "string \<Rightarrow> char \<Rightarrow> int" where
  "rfind s c =
     (if c \<in> set s then int (length s) - 1 - int (length (takeWhile (\<lambda>x. x \<noteq> c) (rev s)))
      else - 1)"

text \<open>
  \<open>posixpath.splitext(p)\<close>: the extension starts at the last dot of the last path
  component, provided some character other than a dot precedes it in that component
  (the library's loop over \<open>filenameIndex\<close> returns at the first such character).
\<close>

definition splitext :: "string \<Rightarrow> string \<times> string" where
  "splitext p =
     (let sepIndex = rfind p CHR ''/'';
          dotIndex = rfind p CHR ''.''
      in if dotIndex > sepIndex \<and>
            (\<exists>c \<in> set (take (nat (dotIndex - (sepIndex + 1))) (drop (nat (sepIndex + 1)) p)).
               c \<noteq> CHR ''.'')
         then (take (nat dotIndex) p, drop (nat dotIndex) p)
         else (p, []))"

section \<open>The regular expression of the loose-image scan\<close>

text \<open>
  The fragment of Python's \<open>re\<close> syntax that the pattern of line 41 uses: literals,
  alternation, concatenation, a negative lookahead \<open>(?!...)\<close>, \<open>.*\<close> (where \<open>.\<close> is any
  character but a newline) and \<open>$\<close> (without MULTILINE: the end of the string, or just
  before a newline that is its last character). \<open>rx_match r s k\<close> holds when \<open>r\<close>
  matches a prefix of \<open>s\<close> such that the continuation \<open>k\<close> accepts the rest; a
  backtracking matcher finds a match exactly when one exists.
\<close>

datatype rx = Lit string | Alt rx rx | Seq rx rx | NotAhead rx | DotStar | Eol

fun rx_match :: "rx \<Rightarrow> string \<Rightarrow> (string \<Rightarrow> bool) \<Rightarrow> bool" where
  "rx_match (Lit l) s k = (startswith s l \<and> k (drop (length l) s))"
| "rx_match (Alt a b) s k = (rx_match a s k \<or> rx_match b s k)"
| "rx_match (Seq a b) s k = rx_match a s (\<lambda>s'. rx_match b s' k)"
| "rx_match (NotAhead a) s k = (\<not> rx_match a s (\<lambda>_. True) \<and> k s)"
| "rx_match DotStar [] k = k []"
| "rx_match DotStar (c # cs) k = (k (c # cs) \<or> (c \<noteq> newline \<and> rx_match DotStar cs k))"
| "rx_match Eol s k = ((s = [] \<or> s = [newline]) \<and> k s)"

text \<open>\<open>re.match(r, s) is not None\<close>: a match anchored at the start of \<open>s\<close>.\<close>

definition re_match :: "rx \<Rightarrow> string \<Rightarrow> bool" where
  "re_match r s = rx_match r s (\<lambda>_. True)"

text \<open>The pattern \<open>(?!fanart\.jpg|icon\.png).*\.(png|jpg|jpeg|gif)$\<close> of line 41.\<close>

definition image_name_rx :: rx where
  "image_name_rx =
     Seq (NotAhead (Alt (Lit ''fanart.jpg'') (Lit ''icon.png'')))
       (Seq DotStar
         (Seq (Lit ''.'')
           (Seq (Alt (Lit ''png'') (Alt (Lit ''jpg'') (Alt (Lit ''jpeg'') (Lit ''gif''))))
             Eol)))"

section \<open>Diagnostics, images and the outside world\<close>

text \<open>
  Modelled from the spec: the diagnostic record and its sink (record.py and report.py
  are imported by the module). A diagnostic is a severity with a message, and
  \<open>Report.add\<close> appends one to an append-only sequence.
\<close>

datatype severity = INFORMATION | WARNING | PROBLEM

datatype diagnostic = Record severity string

type_synonym Report = "diagnostic list"

definition add :: "Report \<Rightarrow> diagnostic \<Rightarrow> Report" where
  "add report r = report @ [r]"

text \<open>
  A decoded image (the object \<open>Image.open\<close> returns): its \<open>size\<close> attribute, and
  the answer \<open>transparent\<close> that the opacity detector gives for it.
\<close>

record image =
  size :: "int \<times> int"
  transparent :: bool

text \<open>
  Modelled from the spec: the opacity detector \<open>has_transparency\<close> of common.py, a
  boolean function of the image handle.
\<close>

definition has_transparency :: "image \<Rightarrow> bool" where
  "has_transparency im = transparent im"

text \<open>
  Exceptions. \<open>IOError\<close> stands for every exception an \<open>except IOError\<close> clause
  catches (IOError and its subclasses); \<open>OtherError c\<close> is an exception of any other
  class \<open>c\<close>, which such a clause lets pass.
\<close>

datatype py_exception = IOError | OtherError string

text \<open>
  What the module reads from outside: \<open>os.path.isfile\<close>, \<open>Image.open\<close> (an image,
  or an exception raised), the display helper \<open>relative_path\<close> of common.py, and the
  comparison \<open>>=\<close> of KodiVersion.py on release names. They are parameters of the
  model. A platform version is the release name its KodiVersion object wraps.
\<close>

record externals =
  isfile :: "string \<Rightarrow> bool"
  Image_open :: "string \<Rightarrow> py_exception + image"
  relative_path :: "string \<Rightarrow> string"
  version_ge :: "string \<Rightarrow> string \<Rightarrow> bool"

text \<open>A file record of the file index: \<open>file["name"]\<close> and \<open>file["path"]\<close>.\<close>

record file_rec =
  name :: string
  path :: string

text \<open>
  The manifest is consulted through \<open>findall\<close> alone: a parsed manifest maps a
  path expression to the \<open>.text\<close> of each node found (\<open>None\<close> for a node without
  text), in document order.
\<close>

type_synonym parsed_xml = "string \<Rightarrow> string option list"

text \<open>
  The state a run changes: the report (the field \<open>sink\<close>), and the trace of file-system calls made so far
  (the module only reads the file system, so the trace is all that a run leaves there).
\<close>

datatype fs_call = IsFile string | ImageOpen string

record world =
  sink :: Report
  accesses :: "fs_call list"

definition emit :: "diagnostic \<Rightarrow> world \<Rightarrow> world" where
  "emit r w = w\<lparr>sink := add (sink w) r\<rparr>"

definition touch :: "fs_call \<Rightarrow> world \<Rightarrow> world" where
  "touch c w = w\<lparr>accesses := accesses w @ [c]\<rparr>"

text \<open>
  How a piece of the module ends: it returns, or an exception leaves it. Either way the
  world is the one reached at that point, since what was added to the report stays.
\<close>

datatype outcome = Returned world | Raised py_exception world

fun world_of :: "outcome \<Rightarrow> world" where
  "world_of (Returned w) = w"
| "world_of (Raised e w) = w"

fun raised_of :: "outcome \<Rightarrow> py_exception option" where
  "raised_of (Returned w) = None"
| "raised_of (Raised e w) = Some e"

text \<open>
  A \<open>for\<close> loop whose body may raise: the body runs on each element in turn, and an
  exception that leaves the body leaves the loop, the remaining elements unvisited.
\<close>

fun py_for :: "('a \<Rightarrow> world \<Rightarrow> outcome) \<Rightarrow> 'a list \<Rightarrow> world \<Rightarrow> outcome" where
  "py_for body [] w = Returned w"
| "py_for body (x # xs) w =
     (case body x w of
        Returned w' \<Rightarrow> py_for body xs w'
      | Raised e w' \<Rightarrow> Raised e w')"

section \<open>The per-role checks (lines 114 to 244)\<close>

type_synonym check_cb = "Report \<Rightarrow> image \<Rightarrow> string \<Rightarrow> int \<Rightarrow> int \<Rightarrow> Report"

definition icon_sizes :: "(int \<times> int) list" where
  "icon_sizes = [(256, 256), (512, 512)]"

definition check_icon :: check_cb where
  "check_icon report im filepath width height =
     (let fileextension = snd (splitext filepath);
          r1 = (if fileextension \<noteq> ''.png''
                then add report (Record PROBLEM
                       (''Icon should be in the png format, provided icon is '' @ fileextension @ ''.''))
                else report);
          r2 = (if has_transparency im
                then add r1 (Record PROBLEM ''Icon should be solid. It has transparency.'')
                else r1)
      in if (width, height) \<notin> set icon_sizes
         then add r2 (Record PROBLEM
                (''Icon should have either 256x256 or 512x512 but it has '' @ fmt_size (width, height)))
         else add r2 (Record INFORMATION (''Icon dimensions are fine '' @ fmt_size (width, height))))"

definition fanart_sizes :: "(int \<times> int) list" where
  "fanart_sizes = [(1280, 720), (1920, 1080), (3840, 2160)]"

definition check_fanart :: check_cb where
  "check_fanart report im filepath width height =
     (let fileextension = snd (splitext filepath);
          r1 = (if fileextension \<notin> set [''.jpg'', ''.jpeg'']
                then add report (Record PROBLEM
                       (''Fanart should be in the jpeg format, provided fanart is '' @ fileextension @ ''.''))
                else report);
          fanart_sizes_str = str_join '' or '' (map fmt_size fanart_sizes)
      in if (width, height) \<notin> set fanart_sizes
         then add r1 (Record PROBLEM
                (''Fanart should have either '' @ fanart_sizes_str @ '' but it has '' @ fmt_size (width, height)))
         else add r1 (Record INFORMATION (''Fanart dimensions are fine '' @ fmt_size (width, height))))"

definition required_banner_size :: "int \<times> int" where
  "required_banner_size = (1000, 185)"

definition check_banner :: check_cb where
  "check_banner report im filepath width height =
     (let fileextension = snd (splitext filepath);
          r1 = (if fileextension \<notin> set [''.jpg'', ''.jpeg'']
                then add report (Record PROBLEM
                       (''Banner should be in the jpeg format, provided banner is '' @ fileextension @ ''.''))
                else report);
          r2 = (if has_transparency im
                then add r1 (Record PROBLEM ''Banner should be solid. It has transparency.'')
                else r1)
      in if (width, height) \<noteq> required_banner_size
         then add r2 (Record PROBLEM
                (''Banner should have 1000x185 but it has '' @ fmt_size (width, height)))
         else add r2 (Record INFORMATION (''Banner dimensions are fine '' @ fmt_size (width, height))))"

definition clearlogo_sizes :: "(int \<times> int) list" where
  "clearlogo_sizes = [(400, 155), (800, 310)]"

definition check_clearlogo :: check_cb where
  "check_clearlogo report im filepath width height =
     (let fileextension = snd (splitext filepath);
          r1 = (if fileextension \<noteq> ''.png''
                then add report (Record PROBLEM
                       (''Clearlogo should be in the png format, provided clearlogo is '' @ fileextension @ ''.''))
                else report);
          r2 = (if \<not> has_transparency im
                then add r1 (Record PROBLEM ''Clearlogo should have transparency. It is solid.'')
                else r1);
          clearlogo_sizes_str = str_join '' or '' (map fmt_size clearlogo_sizes)
      in if (width, height) \<notin> set clearlogo_sizes
         then add r2 (Record PROBLEM
                (''Clearlogo should have either '' @ clearlogo_sizes_str @ '' but it has '' @ fmt_size (width, height)))
         else add r2 (Record INFORMATION (''Clearlogo dimensions are fine '' @ fmt_size (width, height))))"

definition screenshot_sizes :: "(int \<times> int) list" where
  "screenshot_sizes = [(1280, 720), (1920, 1080)]"

definition check_screenshot :: check_cb where
  "check_screenshot report im filepath width height =
     (let filename = fst (splitext filepath);
          fileextension = snd (splitext filepath);
          r1 = (if fileextension \<notin> set [''.jpg'', ''.jpeg'']
                then add report (Record PROBLEM
                       (''Screenshot should be in the jpeg format, '' @ filename @ '' is '' @ fileextension @ ''.''))
                else report);
          r2 = (if has_transparency im
                then add r1 (Record PROBLEM
                       (''Screenshot should be solid. '' @ filename @ '' has transparency.''))
                else r1);
          screenshot_sizes_str = str_join '' or '' (map fmt_size screenshot_sizes)
      in if (width, height) \<notin> set screenshot_sizes
         then add r2 (Record PROBLEM
                (''Screenshot should have either '' @ screenshot_sizes_str @ '' but '' @ filename
                   @ '' has '' @ fmt_size (width, height)))
         else add r2 (Record INFORMATION
                (''Screenshot '' @ filename @ '' dimensions are fine '' @ fmt_size (width, height))))"

section \<open>The resolver \<open>_assests\<close> (lines 93 to 111)\<close>

definition skip_addon_types :: "string list" where
  "skip_addon_types = [''.module.'', ''metadata.'', ''context.'', ''.language.'']"

text \<open>
  The \<open>for ... else\<close> loop of lines 104 to 109: \<open>True\<close> when the loop left by
  \<open>break\<close>, \<open>False\<close> when it ran to its \<open>else\<close> branch.
\<close>

fun skip_loop :: "string list \<Rightarrow> string \<Rightarrow> bool" where
  "skip_loop [] addon_path = False"
| "skip_loop (addon_type # rest) addon_path =
     (if str_in addon_type addon_path then True else skip_loop rest addon_path)"

definition assests :: "string \<Rightarrow> parsed_xml \<Rightarrow> string \<Rightarrow> bool \<times> string option list" where
  "assests image_type parsed_xml addon_path =
     (let images = parsed_xml (''./extension/assets/'' @ image_type)
      in if images = [] \<and> image_type = ''icon'' then (True, images @ [Some ''icon.png''])
         else if images = [] \<and> image_type = ''fanart'' then
           (if skip_loop skip_addon_types addon_path then (False, images)
            else (True, images @ [Some ''fanart.jpg'']))
         else (False, images))"

section \<open>The validator \<open>_check_image_type\<close> (lines 50 to 90)\<close>

text \<open>
  The body of the \<open>try\<close> block (lines 68 to 72), after the call of \<open>Image.open\<close>
  has been traced: either the exception raised by \<open>Image.open\<close>, or the world after
  the role's check has run on the decoded image. The role's checks themselves do not
  raise: they read the size, the path and the answer of the opacity detector.
\<close>

definition open_and_check :: "externals \<Rightarrow> check_cb \<Rightarrow> string \<Rightarrow> world \<Rightarrow> py_exception + world" where
  "open_and_check ext image_check_cb filepath w =
     (case Image_open ext filepath of
        Inl e \<Rightarrow> Inl e
      | Inr im \<Rightarrow>
          (case size im of
             (width, height) \<Rightarrow>
               Inr (w\<lparr>sink := image_check_cb (sink w) im filepath width height\<rparr>)))"

text \<open>
  The body of the loop over \<open>images\<close> (lines 59 to 90). The loop variable \<open>image\<close> is \<open>entry\<close>
  here; it is falsy when the node had no text or an empty one. The clause
  \<open>except IOError\<close> of line 74 handles \<open>IOError\<close>; any other exception leaves the body.
\<close>

definition check_image ::
  "externals \<Rightarrow> string \<Rightarrow> check_cb \<Rightarrow> bool \<Rightarrow> string \<Rightarrow> string \<Rightarrow> string option \<Rightarrow> world \<Rightarrow> outcome" where
  "check_image ext image_type image_check_cb fallback addon_path kodi_version entry w =
     (case entry of
        None \<Rightarrow> Returned (emit (Record WARNING (''Empty image tag found for '' @ image_type)) w)
      | Some img \<Rightarrow>
          if img = [] then Returned (emit (Record WARNING (''Empty image tag found for '' @ image_type)) w)
          else
            let filepath = path_join addon_path img;
                w0 = touch (IsFile filepath) w
            in if isfile ext filepath then
                 let w1 = emit (Record INFORMATION (''Image '' @ image_type @ '' exists'')) w0;
                     w2 = (if fallback \<and> version_ge ext kodi_version ''krypton''
                           then emit (Record PROBLEM
                                  (''Image '' @ image_type @ '' should be explicitly declared in addon.xml <assets>.'')) w1
                           else w1);
                     w3 = touch (ImageOpen filepath) w2
                 in (case open_and_check ext image_check_cb filepath w3 of
                       Inr w4 \<Rightarrow> Returned w4
                     | Inl IOError \<Rightarrow>
                         Returned (emit (Record PROBLEM
                           (''Could not open image, is the file corrupted? '' @ relative_path ext filepath)) w3)
                     | Inl (OtherError c) \<Rightarrow> Raised (OtherError c) w3)
               else if fallback then
                 Returned (emit (Record INFORMATION (''You might want to add a '' @ image_type)) w0)
               else
                 Returned (emit (Record PROBLEM (image_type @ '' does not exist at specified path.'')) w0))"

definition check_image_type ::
  "externals \<Rightarrow> world \<Rightarrow> string \<times> check_cb \<Rightarrow> parsed_xml \<Rightarrow> string \<Rightarrow> string \<Rightarrow> outcome" where
  "check_image_type ext w asset parsed_xml addon_path kodi_version =
     (let image_type = fst asset;
          image_check_cb = snd asset;
          (fallback, images) = assests image_type parsed_xml addon_path
      in py_for (check_image ext image_type image_check_cb fallback addon_path kodi_version) images w)"

section \<open>The entry point \<open>check_artwork\<close> (lines 23 to 47)\<close>

definition art_assets :: "(string \<times> check_cb) list" where
  "art_assets =
     [(''icon'', check_icon),
      (''fanart'', check_fanart),
      (''screenshot'', check_screenshot),
      (''banner'', check_banner),
      (''clearlogo'', check_clearlogo)]"

text \<open>
  The body of the loop over \<open>file_index\<close> (lines 41 to 47), with the clause
  \<open>except IOError\<close> of line 45.
\<close>

definition check_file :: "externals \<Rightarrow> file_rec \<Rightarrow> world \<Rightarrow> outcome" where
  "check_file ext file w =
     (if re_match image_name_rx (name file) then
        let image_path = path_join (path file) (name file);
            w1 = touch (ImageOpen image_path) w
        in (case Image_open ext image_path of
              Inr im \<Rightarrow> Returned w1
            | Inl IOError \<Rightarrow>
                Returned (emit (Record PROBLEM
                  (''Could not open image, is the file corrupted ? '' @ relative_path ext image_path)) w1)
            | Inl (OtherError c) \<Rightarrow> Raised (OtherError c) w1)
      else Returned w)"

definition check_artwork ::
  "externals \<Rightarrow> world \<Rightarrow> string \<Rightarrow> parsed_xml \<Rightarrow> file_rec list \<Rightarrow> string \<Rightarrow> outcome" where
  "check_artwork ext w addon_path parsed_xml file_index kodi_version =
     (case py_for (\<lambda>asset w'. check_image_type ext w' asset parsed_xml addon_path kodi_version)
             art_assets w of
        Returned w1 \<Rightarrow> py_for (check_file ext) file_index w1
      | Raised e w1 \<Rightarrow> Raised e w1)"

section \<open>A sample addon\<close>

text \<open>
  A small addon tree on which the theorems below are instantiated. Under \<open>/addon\<close>
  there are a 256x256 opaque \<open>icon.png\<close>, a 1280x720 screenshot with transparency
  and two files that are no images, \<open>resources/broken.jpg\<close> and
  \<open>resources/fanart.jpg.png\<close>, on which \<open>Image.open\<close> raises IOError; nothing else
  exists. The manifest \<open>sample_xml\<close> declares four screenshots (one of them an empty
  tag, one missing on disk) and no other artwork. Releases are ordered jarvis, krypton,
  leia.

  The tree \<open>bomb_ext\<close> has one more file, \<open>resources/huge.jpg\<close>, an image so large
  that \<open>Image.open\<close> refuses it with Pillow's DecompressionBombError, which is no
  IOError; the manifest \<open>huge_xml\<close> declares it as the first of two screenshots.
\<close>

definition fresh :: world where
  "fresh = \<lparr>sink = [], accesses = []\<rparr>"

definition sample_isfile :: "string \<Rightarrow> bool" where
  "sample_isfile p =
     (p = ''/addon/icon.png'' \<or> p = ''/addon/resources/shot.jpg'' \<or>
      p = ''/addon/resources/broken.jpg'' \<or> p = ''/addon/resources/fanart.jpg.png'')"

definition sample_open :: "string \<Rightarrow> py_exception + image" where
  "sample_open p =
     (if p = ''/addon/icon.png'' then Inr \<lparr>size = (256, 256), transparent = False\<rparr>
      else if p = ''/addon/resources/shot.jpg'' then Inr \<lparr>size = (1280, 720), transparent = True\<rparr>
      else Inl IOError)"

definition sample_relative_path :: "string \<Rightarrow> string" where
  "sample_relative_path p = ''.'' @ drop (length ''/addon'') p"

definition release_rank :: "string \<Rightarrow> nat" where
  "release_rank v = (if v = ''krypton'' then 1 else if v = ''leia'' then 2 else 0)"

definition sample_ext :: externals where
  "sample_ext =
     \<lparr>isfile = sample_isfile, Image_open = sample_open, relative_path = sample_relative_path,
      version_ge = (\<lambda>a b. release_rank b \<le> release_rank a)\<rparr>"

definition sample_xml :: parsed_xml where
  "sample_xml expr =
     (if expr = ''./extension/assets/screenshot''
      then [Some ''resources/shot.jpg'', None, Some ''resources/broken.jpg'', Some ''resources/missing.jpg'']
      else [])"

definition bomb_ext :: externals where
  "bomb_ext =
     \<lparr>isfile = (\<lambda>p. p = ''/addon/resources/huge.jpg'' \<or> sample_isfile p),
      Image_open = (\<lambda>p. if p = ''/addon/resources/huge.jpg''
                         then Inl (OtherError ''DecompressionBombError'') else sample_open p),
      relative_path = sample_relative_path,
      version_ge = (\<lambda>a b. release_rank b \<le> release_rank a)\<rparr>"

definition huge_xml :: parsed_xml where
  "huge_xml expr =
     (if expr = ''./extension/assets/screenshot''
      then [Some ''resources/huge.jpg'', Some ''resources/shot.jpg'']
      else [])"

definition sample_index :: "file_rec list" where
  "sample_index =
     [\<lparr>name = ''icon.png'', path = ''/addon''\<rparr>,
      \<lparr>name = ''broken.jpg'', path = ''/addon/resources''\<rparr>,
      \<lparr>name = ''fanart.jpg.png'', path = ''/addon/resources''\<rparr>]"

section \<open>Facts about the string operations\<close>

lemma startswith_iff: "startswith s p \<longleftrightarrow> (\<exists>post. s = p @ post)"
  unfolding startswith_def
  by (metis append_eq_conv_conj append_take_drop_id)

lemma endswith_iff: "endswith s p \<longleftrightarrow> (\<exists>pre. s = pre @ p)"
  unfolding endswith_def
proof
  assume "length p \<le> length s \<and> drop (length s - length p) s = p"
  then have "s = take (length s - length p) s @ p"
    by (metis append_take_drop_id)
  then show "\<exists>pre. s = pre @ p" ..
next
  assume "\<exists>pre. s = pre @ p"
  then show "length p \<le> length s \<and> drop (length s - length p) s = p"
    by auto
qed

text \<open>\<open>str_in\<close> is the substring relation.\<close>

lemma str_in_iff: "str_in sub s \<longleftrightarrow> (\<exists>pre post. s = pre @ sub @ post)"
proof (induction s)
  case Nil
  then show ?case by auto
next
  case (Cons c cs)
  show ?case
  proof
    assume "str_in sub (c # cs)"
    then consider "startswith (c # cs) sub" | "str_in sub cs" by auto
    then show "\<exists>pre post. c # cs = pre @ sub @ post"
    proof cases
      case 1
      then obtain post where "c # cs = sub @ post" by (auto simp: startswith_iff)
      then have "c # cs = [] @ sub @ post" by simp
      then show ?thesis by blast
    next
      case 2
      then obtain pre post where "cs = pre @ sub @ post" using Cons.IH by auto
      then have "c # cs = (c # pre) @ sub @ post" by simp
      then show ?thesis by blast
    qed
  next
    assume "\<exists>pre post. c # cs = pre @ sub @ post"
    then obtain pre post where e: "c # cs = pre @ sub @ post" by auto
    show "str_in sub (c # cs)"
    proof (cases pre)
      case Nil
      with e have "startswith (c # cs) sub" by (auto simp: startswith_iff)
      then show ?thesis by simp
    next
      case (Cons a pre')
      with e have "cs = pre' @ sub @ post" by simp
      then have "str_in sub cs" using Cons.IH by blast
      then show ?thesis by simp
    qed
  qed
qed

lemma skip_loop_iff: "skip_loop ts p \<longleftrightarrow> (\<exists>t \<in> set ts. str_in t p)"
  by (induction ts) auto

section \<open>The resolver\<close>

text \<open>
  Claim C3. For the fanart role with no declaration in the manifest, the resolver
  returns no path and \<open>fallback = False\<close> when the addon path contains one of the
  substrings \<open>.module.\<close>, \<open>metadata.\<close>, \<open>context.\<close>, \<open>.language.\<close> (compared
  character by character, so case-sensitively), and otherwise exactly the one path
  \<open>fanart.jpg\<close> with \<open>fallback = True\<close>.
\<close>

theorem assests_fanart_no_declarations:
  assumes "parsed_xml ''./extension/assets/fanart'' = []"
  shows "assests ''fanart'' parsed_xml addon_path =
     (if \<exists>t \<in> {''.module.'', ''metadata.'', ''context.'', ''.language.''}.
           \<exists>pre post. addon_path = pre @ t @ post
      then (False, [])
      else (True, [Some ''fanart.jpg'']))"
  using assms
  by (simp add: assests_def skip_loop_iff skip_addon_types_def str_in_iff del: str_in.simps)

theorem assests_fanart_no_declarations_witness:
  "assests ''fanart'' (\<lambda>_. []) ''/repo/metadata.albums'' = (False, []) \<and>
   assests ''fanart'' (\<lambda>_. []) ''/repo/plugin.video.demo'' = (True, [Some ''fanart.jpg''])"
  using assests_fanart_no_declarations [of "\<lambda>_. []" "''/repo/metadata.albums''"]
    assests_fanart_no_declarations [of "\<lambda>_. []" "''/repo/plugin.video.demo''"]
  by (simp add: str_in_iff [symmetric] startswith_def)

text \<open>
  Claim C4. With no declaration in the manifest, the icon role resolves to exactly the
  one path \<open>icon.png\<close> with \<open>fallback = True\<close>; the roles screenshot, banner and
  clearlogo resolve to no path with \<open>fallback = False\<close>, so the validator returns
  with the report (and the trace of file-system calls) untouched for them.
\<close>

theorem assests_no_declarations_icon_and_others:
  assumes "parsed_xml (''./extension/assets/'' @ role) = []"
  shows "(role = ''icon'' \<longrightarrow> assests role parsed_xml addon_path = (True, [Some ''icon.png''])) \<and>
         (role \<in> {''screenshot'', ''banner'', ''clearlogo''} \<longrightarrow>
            assests role parsed_xml addon_path = (False, []) \<and>
            check_image_type ext w (role, cb) parsed_xml addon_path kodi_version = Returned w)"
  using assms by (auto simp: assests_def check_image_type_def)

theorem assests_no_declarations_icon_and_others_witness:
  "assests ''icon'' sample_xml ''/addon'' = (True, [Some ''icon.png'']) \<and>
   assests ''banner'' sample_xml ''/addon'' = (False, []) \<and>
   check_image_type sample_ext fresh (''banner'', check_banner) sample_xml ''/addon'' ''leia'' =
     Returned fresh"
  using assests_no_declarations_icon_and_others [of sample_xml "''icon''" "''/addon''"]
    assests_no_declarations_icon_and_others [of sample_xml "''banner''" "''/addon''" sample_ext fresh check_banner "''leia''"]
  by (simp add: sample_xml_def)

section \<open>What the pattern of the loose-image scan accepts\<close>

lemma rx_match_Lit: "rx_match (Lit l) s k \<longleftrightarrow> (\<exists>r. s = l @ r \<and> k r)"
  by (auto simp: startswith_iff)

lemma rx_match_DotStar:
  "rx_match DotStar s k \<longleftrightarrow> (\<exists>p r. s = p @ r \<and> newline \<notin> set p \<and> k r)"
proof (induction s)
  case Nil
  then show ?case by simp
next
  case (Cons c cs)
  show ?case
  proof
    assume "rx_match DotStar (c # cs) k"
    then consider "k (c # cs)" | "c \<noteq> newline" "rx_match DotStar cs k" by auto
    then show "\<exists>p r. c # cs = p @ r \<and> newline \<notin> set p \<and> k r"
    proof cases
      case 1
      then have "c # cs = [] @ (c # cs) \<and> newline \<notin> set [] \<and> k (c # cs)" by simp
      then show ?thesis by blast
    next
      case 2
      then obtain p r where "cs = p @ r" "newline \<notin> set p" "k r" using Cons.IH by auto
      with 2 have "c # cs = (c # p) @ r \<and> newline \<notin> set (c # p) \<and> k r" by auto
      then show ?thesis by blast
    qed
  next
    assume "\<exists>p r. c # cs = p @ r \<and> newline \<notin> set p \<and> k r"
    then obtain p r where e: "c # cs = p @ r" "newline \<notin> set p" "k r" by auto
    show "rx_match DotStar (c # cs) k"
    proof (cases p)
      case Nil
      with e show ?thesis by auto
    next
      case (Cons a p')
      with e have "cs = p' @ r" "newline \<notin> set p'" "c \<noteq> newline" by auto
      with e Cons.IH have "rx_match DotStar cs k" by blast
      with \<open>c \<noteq> newline\<close> show ?thesis by simp
    qed
  qed
qed

lemma image_ext_alt:
  "rx_match (Alt (Lit ''png'') (Alt (Lit ''jpg'') (Alt (Lit ''jpeg'') (Lit ''gif'')))) s k \<longleftrightarrow>
     (\<exists>e r. s = e @ r \<and> e \<in> {''png'', ''jpg'', ''jpeg'', ''gif''} \<and> k r)"
  by (simp only: rx_match.simps(2) rx_match_Lit) blast

lemma image_name_rx_iff:
  "re_match image_name_rx nm \<longleftrightarrow>
     \<not> startswith nm ''fanart.jpg'' \<and> \<not> startswith nm ''icon.png'' \<and>
     (\<exists>stem e tail. nm = stem @ ''.'' @ e @ tail \<and> newline \<notin> set stem \<and>
        e \<in> {''png'', ''jpg'', ''jpeg'', ''gif''} \<and> (tail = [] \<or> tail = [newline]))"
proof -
  have tail: "rx_match (Seq DotStar (Seq (Lit ''.'')
                 (Seq (Alt (Lit ''png'') (Alt (Lit ''jpg'') (Alt (Lit ''jpeg'') (Lit ''gif'')))) Eol)))
               nm (\<lambda>_. True) \<longleftrightarrow>
     (\<exists>stem e tail. nm = stem @ ''.'' @ e @ tail \<and> newline \<notin> set stem \<and>
        e \<in> {''png'', ''jpg'', ''jpeg'', ''gif''} \<and> (tail = [] \<or> tail = [newline]))"
    by (simp only: rx_match.simps(3,7) rx_match_Lit rx_match_DotStar image_ext_alt) blast
  have head: "rx_match (Alt (Lit ''fanart.jpg'') (Lit ''icon.png'')) nm (\<lambda>_. True) \<longleftrightarrow>
     startswith nm ''fanart.jpg'' \<or> startswith nm ''icon.png''"
    by (simp only: rx_match.simps(2) rx_match_Lit startswith_iff) blast
  show ?thesis
    unfolding re_match_def image_name_rx_def
    by (simp only: rx_match.simps(3) [where a = "NotAhead x" for x] rx_match.simps(4) head tail)
      blast
qed

section \<open>The validator, entry by entry\<close>

lemmas sample_defs = sample_ext_def bomb_ext_def sample_isfile_def sample_open_def
  sample_relative_path_def release_rank_def sample_xml_def huge_xml_def fresh_def

lemmas path_defs = path_join_def startswith_def endswith_def

text \<open>Loops: an exception in a first part of the elements ends the loop there.\<close>

lemma py_for_append:
  "py_for body (xs @ ys) w =
     (case py_for body xs w of Returned w' \<Rightarrow> py_for body ys w' | Raised e w' \<Rightarrow> Raised e w')"
  by (induction xs arbitrary: w) (simp_all split: outcome.splits)

lemma py_for_reaches:
  assumes "py_for body before w0 = Returned w"
  shows "py_for body (before @ x # rest) w0 =
     (case body x w of Returned w' \<Rightarrow> py_for body rest w' | Raised e w' \<Rightarrow> Raised e w')"
  using assms by (simp add: py_for_append)

lemma py_for_returns:
  assumes "\<And>x w. \<exists>w'. body x w = Returned w'"
  shows "\<exists>w'. py_for body xs w = Returned w'"
proof (induction xs arbitrary: w)
  case Nil
  then show ?case by simp
next
  case (Cons x xs)
  obtain w1 where "body x w = Returned w1" using assms by blast
  then show ?case using Cons.IH [of w1] by simp
qed

lemma check_image_type_loop:
  assumes "assests role parsed_xml addon_path = (fallback, before @ entry # rest)"
    and "py_for (check_image ext role cb fallback addon_path kodi_version) before w0 = Returned w"
    and "check_image ext role cb fallback addon_path kodi_version entry w = Returned w'"
  shows "check_image_type ext w0 (role, cb) parsed_xml addon_path kodi_version =
     py_for (check_image ext role cb fallback addon_path kodi_version) rest w'"
  using assms by (simp add: check_image_type_def py_for_reaches)

lemma check_artwork_loop:
  assumes "art_assets = earlier @ asset # later"
    and "py_for (\<lambda>asset w'. check_image_type ext w' asset parsed_xml addon_path kodi_version)
           earlier w1 = Returned w2"
    and "check_image_type ext w2 asset parsed_xml addon_path kodi_version = Returned w3"
  shows "check_artwork ext w1 addon_path parsed_xml file_index kodi_version =
     (case py_for (\<lambda>asset w'. check_image_type ext w' asset parsed_xml addon_path kodi_version)
             later w3 of
        Returned w4 \<Rightarrow> py_for (check_file ext) file_index w4
      | Raised e w4 \<Rightarrow> Raised e w4)"
  unfolding check_artwork_def assms(1) using assms(2,3) by (simp add: py_for_reaches)

text \<open>The three ways an entry with an existing file can end.\<close>

lemma check_image_decoded:
  assumes "img \<noteq> []"
    and "isfile ext (path_join addon_path img)"
    and "Image_open ext (path_join addon_path img) = Inr im"
  shows "check_image ext role cb fallback addon_path kodi_version (Some img) w =
     Returned (w\<lparr>sink := cb (sink w @
                [Record INFORMATION (''Image '' @ role @ '' exists'')] @
                (if fallback \<and> version_ge ext kodi_version ''krypton''
                 then [Record PROBLEM
                        (''Image '' @ role @ '' should be explicitly declared in addon.xml <assets>.'')]
                 else []))
              im (path_join addon_path img) (fst (size im)) (snd (size im)),
        accesses := accesses w @
              [IsFile (path_join addon_path img), ImageOpen (path_join addon_path img)]\<rparr>)"
  using assms
  by (simp add: check_image_def open_and_check_def emit_def touch_def add_def Let_def split: prod.splits)

lemma check_image_undecodable:
  assumes "img \<noteq> []"
    and "isfile ext (path_join addon_path img)"
    and "Image_open ext (path_join addon_path img) = Inl IOError"
  shows "check_image ext role cb fallback addon_path kodi_version (Some img) w =
     Returned (w\<lparr>sink := sink w @
         [Record INFORMATION (''Image '' @ role @ '' exists'')] @
         (if fallback \<and> version_ge ext kodi_version ''krypton''
          then [Record PROBLEM
                 (''Image '' @ role @ '' should be explicitly declared in addon.xml <assets>.'')]
          else []) @
         [Record PROBLEM (''Could not open image, is the file corrupted? ''
            @ relative_path ext (path_join addon_path img))],
       accesses := accesses w @
         [IsFile (path_join addon_path img), ImageOpen (path_join addon_path img)]\<rparr>)"
  using assms by (simp add: check_image_def open_and_check_def emit_def touch_def add_def Let_def)

lemma check_image_refused:
  assumes "img \<noteq> []"
    and "isfile ext (path_join addon_path img)"
    and "Image_open ext (path_join addon_path img) = Inl (OtherError c)"
  shows "check_image ext role cb fallback addon_path kodi_version (Some img) w =
     Raised (OtherError c) (w\<lparr>sink := sink w @
         [Record INFORMATION (''Image '' @ role @ '' exists'')] @
         (if fallback \<and> version_ge ext kodi_version ''krypton''
          then [Record PROBLEM
                 (''Image '' @ role @ '' should be explicitly declared in addon.xml <assets>.'')]
          else []),
       accesses := accesses w @
         [IsFile (path_join addon_path img), ImageOpen (path_join addon_path img)]\<rparr>)"
  using assms by (simp add: check_image_def open_and_check_def emit_def touch_def add_def Let_def)

lemma check_image_absent:
  assumes "entry = None \<or> entry = Some []"
  shows "check_image ext role cb fallback addon_path kodi_version entry w =
     Returned (w\<lparr>sink := sink w @ [Record WARNING (''Empty image tag found for '' @ role)]\<rparr>)"
  using assms by (auto simp: check_image_def emit_def add_def)

lemma check_image_missing:
  assumes "img \<noteq> []" and "\<not> isfile ext (path_join addon_path img)"
  shows "check_image ext role cb fallback addon_path kodi_version (Some img) w =
     Returned (w\<lparr>sink := sink w @
               [if fallback then Record INFORMATION (''You might want to add a '' @ role)
                else Record PROBLEM (role @ '' does not exist at specified path.'')],
          accesses := accesses w @ [IsFile (path_join addon_path img)]\<rparr>)"
  using assms by (simp add: check_image_def emit_def touch_def add_def Let_def)

text \<open>When every failure of \<open>Image.open\<close> is an IOError, no body and no loop raises.\<close>

lemma check_image_returns:
  assumes "\<forall>p e. Image_open ext p = Inl e \<longrightarrow> e = IOError"
  shows "\<exists>w'. check_image ext role cb fallback addon_path kodi_version entry w = Returned w'"
proof (cases "entry = None \<or> entry = Some []")
  case True
  then show ?thesis by (simp add: check_image_absent)
next
  case False
  then obtain img where e: "entry = Some img" "img \<noteq> []" by (cases entry) auto
  show ?thesis
  proof (cases "isfile ext (path_join addon_path img)")
    case nofile: False
    then show ?thesis using e by (simp add: check_image_missing)
  next
    case isfile: True
    show ?thesis
    proof (cases "Image_open ext (path_join addon_path img)")
      case (Inl x)
      then have "Image_open ext (path_join addon_path img) = Inl IOError" using assms by blast
      then show ?thesis using e isfile by (simp add: check_image_undecodable)
    next
      case (Inr im)
      then show ?thesis using e isfile by (simp add: check_image_decoded)
    qed
  qed
qed

lemma check_image_type_returns:
  assumes "\<forall>p e. Image_open ext p = Inl e \<longrightarrow> e = IOError"
  shows "\<exists>w'. check_image_type ext w asset parsed_xml addon_path kodi_version = Returned w'"
proof -
  obtain fallback images where a: "assests (fst asset) parsed_xml addon_path = (fallback, images)"
    by (cases "assests (fst asset) parsed_xml addon_path") simp
  have "\<exists>w'. py_for (check_image ext (fst asset) (snd asset) fallback addon_path kodi_version) images w =
      Returned w'"
    by (rule py_for_returns) (rule check_image_returns [OF assms])
  then show ?thesis by (simp add: check_image_type_def a)
qed

lemma check_file_returns:
  assumes "\<forall>p e. Image_open ext p = Inl e \<longrightarrow> e = IOError"
  shows "\<exists>w'. check_file ext file w = Returned w'"
proof (cases "Image_open ext (path_join (path file) (name file))")
  case (Inl x)
  then have "Image_open ext (path_join (path file) (name file)) = Inl IOError" using assms by blast
  then show ?thesis by (simp add: check_file_def Let_def)
next
  case (Inr im)
  then show ?thesis by (simp add: check_file_def Let_def)
qed

lemma check_artwork_returns:
  assumes "\<forall>p e. Image_open ext p = Inl e \<longrightarrow> e = IOError"
  shows "\<exists>w'. check_artwork ext w addon_path parsed_xml file_index kodi_version = Returned w'"
proof -
  have "\<exists>w1. py_for (\<lambda>asset w'. check_image_type ext w' asset parsed_xml addon_path kodi_version)
      art_assets w = Returned w1"
    by (rule py_for_returns) (rule check_image_type_returns [OF assms])
  then obtain w1 where a: "py_for (\<lambda>asset w'. check_image_type ext w' asset parsed_xml addon_path kodi_version)
      art_assets w = Returned w1" ..
  have "\<exists>w2. py_for (check_file ext) file_index w1 = Returned w2"
    by (rule py_for_returns) (rule check_file_returns [OF assms])
  with a show ?thesis by (simp add: check_artwork_def)
qed

text \<open>
  Claim C6. An entry that is absent or empty adds exactly one WARNING to the report and
  makes no file-system call. An entry naming a file that does not exist adds exactly
  one diagnostic after the one \<open>isfile\<close> call: an INFORMATION when the resolution is a
  fallback, a PROBLEM when it is not. In each case the body returns, and the loop of
  the role goes on with the entries that follow.
\<close>

theorem check_image_empty_or_missing:
  "(entry = None \<or> entry = Some [] \<longrightarrow>
      check_image ext role cb fallback addon_path kodi_version entry w =
        Returned (w\<lparr>sink := sink w @ [Record WARNING (''Empty image tag found for '' @ role)]\<rparr>) \<and>
      accesses (world_of (check_image ext role cb fallback addon_path kodi_version entry w)) = accesses w) \<and>
   (entry = Some img \<and> img \<noteq> [] \<and> \<not> isfile ext (path_join addon_path img) \<longrightarrow>
      check_image ext role cb fallback addon_path kodi_version entry w =
        Returned (w\<lparr>sink := sink w @
               [if fallback then Record INFORMATION (''You might want to add a '' @ role)
                else Record PROBLEM (role @ '' does not exist at specified path.'')],
          accesses := accesses w @ [IsFile (path_join addon_path img)]\<rparr>)) \<and>
   ((entry = None \<or> entry = Some [] \<or>
       (entry = Some img \<and> img \<noteq> [] \<and> \<not> isfile ext (path_join addon_path img))) \<and>
    assests role parsed_xml addon_path = (fallback, before @ entry # rest) \<and>
    py_for (check_image ext role cb fallback addon_path kodi_version) before w0 = Returned w \<longrightarrow>
      check_image_type ext w0 (role, cb) parsed_xml addon_path kodi_version =
        py_for (check_image ext role cb fallback addon_path kodi_version) rest
          (world_of (check_image ext role cb fallback addon_path kodi_version entry w)))"
proof (intro conjI impI)
  assume "entry = None \<or> entry = Some []"
  then show "check_image ext role cb fallback addon_path kodi_version entry w =
        Returned (w\<lparr>sink := sink w @ [Record WARNING (''Empty image tag found for '' @ role)]\<rparr>)"
    by (rule check_image_absent)
  then show "accesses (world_of (check_image ext role cb fallback addon_path kodi_version entry w)) =
      accesses w"
    by simp
next
  assume "entry = Some img \<and> img \<noteq> [] \<and> \<not> isfile ext (path_join addon_path img)"
  then show "check_image ext role cb fallback addon_path kodi_version entry w =
        Returned (w\<lparr>sink := sink w @
               [if fallback then Record INFORMATION (''You might want to add a '' @ role)
                else Record PROBLEM (role @ '' does not exist at specified path.'')],
          accesses := accesses w @ [IsFile (path_join addon_path img)]\<rparr>)"
    by (simp add: check_image_missing)
next
  assume a: "(entry = None \<or> entry = Some [] \<or>
       (entry = Some img \<and> img \<noteq> [] \<and> \<not> isfile ext (path_join addon_path img))) \<and>
    assests role parsed_xml addon_path = (fallback, before @ entry # rest) \<and>
    py_for (check_image ext role cb fallback addon_path kodi_version) before w0 = Returned w"
  then have "\<exists>w'. check_image ext role cb fallback addon_path kodi_version entry w = Returned w'"
    using check_image_absent [of entry ext role cb fallback addon_path kodi_version w]
      check_image_missing [of img ext addon_path role cb fallback kodi_version w]
    by auto
  then obtain w' where r: "check_image ext role cb fallback addon_path kodi_version entry w = Returned w'" ..
  from a have "check_image_type ext w0 (role, cb) parsed_xml addon_path kodi_version =
      py_for (check_image ext role cb fallback addon_path kodi_version) rest w'"
    using r by (intro check_image_type_loop) auto
  then show "check_image_type ext w0 (role, cb) parsed_xml addon_path kodi_version =
        py_for (check_image ext role cb fallback addon_path kodi_version) rest
          (world_of (check_image ext role cb fallback addon_path kodi_version entry w))"
    by (simp add: r)
qed

theorem check_image_empty_or_missing_witness:
  "check_image sample_ext ''screenshot'' check_screenshot False ''/addon'' ''leia'' None fresh =
     Returned \<lparr>sink = [Record WARNING ''Empty image tag found for screenshot''], accesses = []\<rparr> \<and>
   check_image sample_ext ''screenshot'' check_screenshot False ''/addon'' ''leia''
       (Some ''resources/missing.jpg'') fresh =
     Returned \<lparr>sink = [Record PROBLEM ''screenshot does not exist at specified path.''],
      accesses = [IsFile ''/addon/resources/missing.jpg'']\<rparr> \<and>
   check_image sample_ext ''fanart'' check_fanart True ''/addon'' ''leia'' (Some ''fanart.jpg'') fresh =
     Returned \<lparr>sink = [Record INFORMATION ''You might want to add a fanart''],
      accesses = [IsFile ''/addon/fanart.jpg'']\<rparr> \<and>
   check_image_type sample_ext fresh (''screenshot'', check_screenshot)
       (\<lambda>_. [None, Some ''resources/missing.jpg'']) ''/addon'' ''leia'' =
     py_for (check_image sample_ext ''screenshot'' check_screenshot False ''/addon'' ''leia'')
       [Some ''resources/missing.jpg'']
       \<lparr>sink = [Record WARNING ''Empty image tag found for screenshot''], accesses = []\<rparr>"
  using
    check_image_empty_or_missing [of None sample_ext "''screenshot''" check_screenshot False
      "''/addon''" "''leia''" fresh "''resources/shot.jpg''" "\<lambda>_. [None, Some ''resources/missing.jpg'']"
      "[]" "[Some ''resources/missing.jpg'']" fresh]
    check_image_empty_or_missing [of "Some ''resources/missing.jpg''" sample_ext "''screenshot''"
      check_screenshot False "''/addon''" "''leia''" fresh "''resources/missing.jpg''"]
    check_image_empty_or_missing [of "Some ''fanart.jpg''" sample_ext "''fanart''"
      check_fanart True "''/addon''" "''leia''" fresh "''fanart.jpg''"]
  by (simp add: sample_defs path_defs assests_def)

text \<open>
  A decode failure that is no IOError is not handled. In the tree \<open>bomb_ext\<close> the
  declared screenshot \<open>resources/huge.jpg\<close> exists and \<open>Image.open\<close> raises
  DecompressionBombError for it: the exception leaves the body of the loop after the
  existence INFORMATION, no PROBLEM names the path, and the exception leaves
  \<open>check_artwork\<close>; the second screenshot, the remaining roles and the file index
  are not visited.
\<close>

theorem decode_failure_counterexample:
  "isfile bomb_ext (path_join ''/addon'' ''resources/huge.jpg'') \<and>
   Image_open bomb_ext (path_join ''/addon'' ''resources/huge.jpg'') =
     Inl (OtherError ''DecompressionBombError'') \<and>
   check_image bomb_ext ''screenshot'' check_screenshot False ''/addon'' ''leia''
       (Some ''resources/huge.jpg'') fresh =
     Raised (OtherError ''DecompressionBombError'')
       \<lparr>sink = [Record INFORMATION ''Image screenshot exists''],
        accesses = [IsFile ''/addon/resources/huge.jpg'', ImageOpen ''/addon/resources/huge.jpg'']\<rparr> \<and>
   raised_of (check_artwork bomb_ext fresh ''/addon'' huge_xml sample_index ''leia'') =
     Some (OtherError ''DecompressionBombError'') \<and>
   accesses (world_of (check_artwork bomb_ext fresh ''/addon'' huge_xml sample_index ''leia'')) =
     [IsFile ''/addon/icon.png'', ImageOpen ''/addon/icon.png'', IsFile ''/addon/fanart.jpg'',
      IsFile ''/addon/resources/huge.jpg'', ImageOpen ''/addon/resources/huge.jpg'']"
proof -
  have p: "path_join ''/addon'' ''resources/huge.jpg'' = ''/addon/resources/huge.jpg''"
    "path_join ''/addon'' ''icon.png'' = ''/addon/icon.png''"
    "path_join ''/addon'' ''fanart.jpg'' = ''/addon/fanart.jpg''"
    by (simp_all add: path_defs)
  have f: "isfile bomb_ext (path_join ''/addon'' ''resources/huge.jpg'')"
    by (simp add: p sample_defs)
  have x: "Image_open bomb_ext (path_join ''/addon'' ''resources/huge.jpg'') =
      Inl (OtherError ''DecompressionBombError'')"
    by (simp add: p sample_defs)
  have huge: "check_image bomb_ext ''screenshot'' check_screenshot False ''/addon'' ''leia''
       (Some ''resources/huge.jpg'') w =
     Raised (OtherError ''DecompressionBombError'')
       (w\<lparr>sink := sink w @ [Record INFORMATION ''Image screenshot exists''],
          accesses := accesses w @
            [IsFile ''/addon/resources/huge.jpg'', ImageOpen ''/addon/resources/huge.jpg'']\<rparr>)" for w
    using check_image_refused [of "''resources/huge.jpg''" bomb_ext "''/addon''"
        "''DecompressionBombError''" "''screenshot''" check_screenshot False "''leia''" w] f x
    by (simp add: p)
  have icon: "\<exists>r. check_image_type bomb_ext fresh (''icon'', check_icon) huge_xml ''/addon'' ''leia'' =
      Returned \<lparr>sink = r, accesses = [IsFile ''/addon/icon.png'', ImageOpen ''/addon/icon.png'']\<rparr>"
    using check_image_decoded [of "''icon.png''" bomb_ext "''/addon''"
        "\<lparr>size = (256, 256), transparent = False\<rparr>" "''icon''" check_icon True "''leia''" fresh]
    by (simp add: check_image_type_def assests_def p sample_defs)
  then obtain r where icon': "check_image_type bomb_ext fresh (''icon'', check_icon) huge_xml ''/addon'' ''leia'' =
      Returned \<lparr>sink = r, accesses = [IsFile ''/addon/icon.png'', ImageOpen ''/addon/icon.png'']\<rparr>" ..
  have fanart: "check_image_type bomb_ext w (''fanart'', check_fanart) huge_xml ''/addon'' ''leia'' =
      Returned (w\<lparr>sink := sink w @ [Record INFORMATION ''You might want to add a fanart''],
                  accesses := accesses w @ [IsFile ''/addon/fanart.jpg'']\<rparr>)" for w
    using check_image_missing [of "''fanart.jpg''" bomb_ext "''/addon''" "''fanart''" check_fanart
        True "''leia''" w]
    by (simp add: check_image_type_def assests_def skip_addon_types_def startswith_def p sample_defs)
  have shot: "check_image_type bomb_ext w (''screenshot'', check_screenshot) huge_xml ''/addon'' ''leia'' =
     Raised (OtherError ''DecompressionBombError'')
       (w\<lparr>sink := sink w @ [Record INFORMATION ''Image screenshot exists''],
          accesses := accesses w @
            [IsFile ''/addon/resources/huge.jpg'', ImageOpen ''/addon/resources/huge.jpg'']\<rparr>)" for w
    by (simp add: check_image_type_def assests_def huge_xml_def huge)
  have run: "check_artwork bomb_ext fresh ''/addon'' huge_xml sample_index ''leia'' =
     Raised (OtherError ''DecompressionBombError'')
       \<lparr>sink = r @ [Record INFORMATION ''You might want to add a fanart'',
                    Record INFORMATION ''Image screenshot exists''],
        accesses = [IsFile ''/addon/icon.png'', ImageOpen ''/addon/icon.png'', IsFile ''/addon/fanart.jpg'',
          IsFile ''/addon/resources/huge.jpg'', ImageOpen ''/addon/resources/huge.jpg'']\<rparr>"
    by (simp add: check_artwork_def art_assets_def icon' fanart shot)
  from f x huge [of fresh] run show ?thesis by (simp add: fresh_def)
qed

text \<open>
  Claim C7, as amended. When a candidate file exists and \<open>Image.open\<close> raises IOError,
  the \<open>try\<close> block ends with that exception before the role's check is called, the
  handler adds exactly one PROBLEM naming the path (after the existence INFORMATION
  and, when gated, the explicit-declaration PROBLEM), the result does not depend on the
  role's check, and the body returns: the loop goes on with the entries that follow, and
  a role that returns is followed by the remaining roles and the scan of the file
  index. When every failure of \<open>Image.open\<close> is an IOError, \<open>check_artwork\<close> returns: no
  exception leaves it.
\<close>

theorem check_image_decode_failure:
  assumes "img \<noteq> []"
    and "isfile ext (path_join addon_path img)"
    and "Image_open ext (path_join addon_path img) = Inl IOError"
  shows "open_and_check ext cb (path_join addon_path img) w' = Inl IOError \<and>
     check_image ext role cb fallback addon_path kodi_version (Some img) w =
       Returned (w\<lparr>sink := sink w @
              [Record INFORMATION (''Image '' @ role @ '' exists'')] @
              (if fallback \<and> version_ge ext kodi_version ''krypton''
               then [Record PROBLEM
                      (''Image '' @ role @ '' should be explicitly declared in addon.xml <assets>.'')]
               else []) @
              [Record PROBLEM (''Could not open image, is the file corrupted? ''
                 @ relative_path ext (path_join addon_path img))],
         accesses := accesses w @
              [IsFile (path_join addon_path img), ImageOpen (path_join addon_path img)]\<rparr>) \<and>
     (assests role parsed_xml addon_path = (fallback, before @ Some img # rest) \<and>
      py_for (check_image ext role cb fallback addon_path kodi_version) before w0 = Returned w \<longrightarrow>
        check_image_type ext w0 (role, cb) parsed_xml addon_path kodi_version =
          py_for (check_image ext role cb fallback addon_path kodi_version) rest
            (world_of (check_image ext role cb fallback addon_path kodi_version (Some img) w))) \<and>
     (art_assets = earlier @ (role, cb) # later \<and>
      py_for (\<lambda>asset w'. check_image_type ext w' asset parsed_xml addon_path kodi_version)
        earlier w1 = Returned w2 \<and>
      check_image_type ext w2 (role, cb) parsed_xml addon_path kodi_version = Returned w3 \<longrightarrow>
        check_artwork ext w1 addon_path parsed_xml file_index kodi_version =
          (case py_for (\<lambda>asset w'. check_image_type ext w' asset parsed_xml addon_path kodi_version)
                  later w3 of
             Returned w4 \<Rightarrow> py_for (check_file ext) file_index w4
           | Raised e w4 \<Rightarrow> Raised e w4)) \<and>
     ((\<forall>p e. Image_open ext p = Inl e \<longrightarrow> e = IOError) \<longrightarrow>
        (\<exists>w5. check_artwork ext w1 addon_path parsed_xml file_index kodi_version = Returned w5))"
proof (intro conjI impI)
  show "open_and_check ext cb (path_join addon_path img) w' = Inl IOError"
    using assms(3) by (simp add: open_and_check_def)
  show r: "check_image ext role cb fallback addon_path kodi_version (Some img) w =
       Returned (w\<lparr>sink := sink w @
              [Record INFORMATION (''Image '' @ role @ '' exists'')] @
              (if fallback \<and> version_ge ext kodi_version ''krypton''
               then [Record PROBLEM
                      (''Image '' @ role @ '' should be explicitly declared in addon.xml <assets>.'')]
               else []) @
              [Record PROBLEM (''Could not open image, is the file corrupted? ''
                 @ relative_path ext (path_join addon_path img))],
         accesses := accesses w @
              [IsFile (path_join addon_path img), ImageOpen (path_join addon_path img)]\<rparr>)"
    by (rule check_image_undecodable [OF assms])
  {
    assume a: "assests role parsed_xml addon_path = (fallback, before @ Some img # rest) \<and>
      py_for (check_image ext role cb fallback addon_path kodi_version) before w0 = Returned w"
    show "check_image_type ext w0 (role, cb) parsed_xml addon_path kodi_version =
          py_for (check_image ext role cb fallback addon_path kodi_version) rest
            (world_of (check_image ext role cb fallback addon_path kodi_version (Some img) w))"
      unfolding r world_of.simps using a r by (intro check_image_type_loop) auto
  }
  {
    assume "art_assets = earlier @ (role, cb) # later \<and>
      py_for (\<lambda>asset w'. check_image_type ext w' asset parsed_xml addon_path kodi_version)
        earlier w1 = Returned w2 \<and>
      check_image_type ext w2 (role, cb) parsed_xml addon_path kodi_version = Returned w3"
    then show "check_artwork ext w1 addon_path parsed_xml file_index kodi_version =
          (case py_for (\<lambda>asset w'. check_image_type ext w' asset parsed_xml addon_path kodi_version)
                  later w3 of
             Returned w4 \<Rightarrow> py_for (check_file ext) file_index w4
           | Raised e w4 \<Rightarrow> Raised e w4)"
      by (intro check_artwork_loop) auto
  }
  {
    assume "\<forall>p e. Image_open ext p = Inl e \<longrightarrow> e = IOError"
    then show "\<exists>w5. check_artwork ext w1 addon_path parsed_xml file_index kodi_version = Returned w5"
      by (rule check_artwork_returns)
  }
qed

theorem check_image_decode_failure_witness:
  "check_image sample_ext ''icon'' check_icon False ''/addon'' ''leia''
       (Some ''resources/broken.jpg'') fresh =
     Returned \<lparr>sink = [Record INFORMATION ''Image icon exists'',
              Record PROBLEM ''Could not open image, is the file corrupted? ./resources/broken.jpg''],
      accesses = [IsFile ''/addon/resources/broken.jpg'', ImageOpen ''/addon/resources/broken.jpg'']\<rparr> \<and>
   check_image_type sample_ext fresh (''icon'', check_icon)
       (\<lambda>_. [Some ''resources/broken.jpg'', Some ''resources/missing.jpg'']) ''/addon'' ''leia'' =
     py_for (check_image sample_ext ''icon'' check_icon False ''/addon'' ''leia'')
       [Some ''resources/missing.jpg'']
       \<lparr>sink = [Record INFORMATION ''Image icon exists'',
              Record PROBLEM ''Could not open image, is the file corrupted? ./resources/broken.jpg''],
        accesses = [IsFile ''/addon/resources/broken.jpg'', ImageOpen ''/addon/resources/broken.jpg'']\<rparr> \<and>
   check_artwork sample_ext fresh ''/addon''
       (\<lambda>e. if e = ''./extension/assets/icon'' then [Some ''resources/broken.jpg''] else [])
       sample_index ''leia'' =
     (case py_for (\<lambda>asset w'. check_image_type sample_ext w' asset
                     (\<lambda>e. if e = ''./extension/assets/icon'' then [Some ''resources/broken.jpg''] else [])
                     ''/addon'' ''leia'')
             [(''fanart'', check_fanart), (''screenshot'', check_screenshot),
              (''banner'', check_banner), (''clearlogo'', check_clearlogo)]
             \<lparr>sink = [Record INFORMATION ''Image icon exists'',
                Record PROBLEM ''Could not open image, is the file corrupted? ./resources/broken.jpg''],
              accesses = [IsFile ''/addon/resources/broken.jpg'',
                ImageOpen ''/addon/resources/broken.jpg'']\<rparr> of
        Returned w4 \<Rightarrow> py_for (check_file sample_ext) sample_index w4
      | Raised e w4 \<Rightarrow> Raised e w4) \<and>
   (\<exists>w. check_artwork sample_ext fresh ''/addon'' sample_xml sample_index ''leia'' = Returned w)"
proof -
  have r: "check_image sample_ext ''icon'' check_icon False ''/addon'' ''leia''
       (Some ''resources/broken.jpg'') fresh =
     Returned \<lparr>sink = [Record INFORMATION ''Image icon exists'',
              Record PROBLEM ''Could not open image, is the file corrupted? ./resources/broken.jpg''],
      accesses = [IsFile ''/addon/resources/broken.jpg'', ImageOpen ''/addon/resources/broken.jpg'']\<rparr>"
    by (simp add: check_image_undecodable sample_defs path_defs)
  have g: "check_image_type sample_ext fresh (''icon'', check_icon)
       (\<lambda>e. if e = ''./extension/assets/icon'' then [Some ''resources/broken.jpg''] else [])
       ''/addon'' ''leia'' =
     Returned \<lparr>sink = [Record INFORMATION ''Image icon exists'',
              Record PROBLEM ''Could not open image, is the file corrupted? ./resources/broken.jpg''],
      accesses = [IsFile ''/addon/resources/broken.jpg'', ImageOpen ''/addon/resources/broken.jpg'']\<rparr>"
    by (simp add: check_image_type_def assests_def r)
  have h: "art_assets = [] @ (''icon'', check_icon) #
      [(''fanart'', check_fanart), (''screenshot'', check_screenshot),
       (''banner'', check_banner), (''clearlogo'', check_clearlogo)]"
    by (simp add: art_assets_def)
  have a: "''resources/broken.jpg'' \<noteq> []" by simp
  have b: "isfile sample_ext (path_join ''/addon'' ''resources/broken.jpg'')"
    by (simp add: sample_defs path_defs)
  have c: "Image_open sample_ext (path_join ''/addon'' ''resources/broken.jpg'') = Inl IOError"
    by (simp add: sample_defs path_defs)
  have d: "assests ''icon'' (\<lambda>_. [Some ''resources/broken.jpg'', Some ''resources/missing.jpg'']) ''/addon'' =
      (False, [] @ Some ''resources/broken.jpg'' # [Some ''resources/missing.jpg''])"
    by (simp add: assests_def)
  have e: "\<forall>p e. Image_open sample_ext p = Inl e \<longrightarrow> e = IOError"
    by (simp add: sample_defs)
  show ?thesis
    using check_image_decode_failure [OF a b c, of check_icon fresh "''icon''" False "''leia''" fresh
        "\<lambda>_. [Some ''resources/broken.jpg'', Some ''resources/missing.jpg'']" "[]"
        "[Some ''resources/missing.jpg'']" fresh "[]" "[]" fresh fresh fresh sample_index]
      check_image_decode_failure [OF a b c, of check_icon fresh "''icon''" False "''leia''" fresh
        "\<lambda>e. if e = ''./extension/assets/icon'' then [Some ''resources/broken.jpg''] else []" "[]" "[]"
        fresh "[]"
        "[(''fanart'', check_fanart), (''screenshot'', check_screenshot),
          (''banner'', check_banner), (''clearlogo'', check_clearlogo)]"
        fresh fresh
        "\<lparr>sink = [Record INFORMATION ''Image icon exists'',
              Record PROBLEM ''Could not open image, is the file corrupted? ./resources/broken.jpg''],
          accesses = [IsFile ''/addon/resources/broken.jpg'', ImageOpen ''/addon/resources/broken.jpg'']\<rparr>"
        sample_index]
      check_image_decode_failure [OF a b c, of check_icon fresh "''icon''" False "''leia''" fresh
        sample_xml "[]" "[]" fresh "[]" "[]" fresh fresh fresh sample_index] d e g h
    by (simp add: sample_defs path_defs)
qed

section \<open>The per-role checks\<close>

text \<open>
  Each role's check appends to the report, in this order, its format diagnostic, its
  transparency diagnostic (fanart has none) and its dimension diagnostic.
\<close>

lemma check_icon_shape:
  "check_icon rep im fp w h = rep @
     (if snd (splitext fp) \<noteq> ''.png''
      then [Record PROBLEM (''Icon should be in the png format, provided icon is '' @ snd (splitext fp) @ ''.'')]
      else []) @
     (if has_transparency im then [Record PROBLEM ''Icon should be solid. It has transparency.''] else []) @
     [if (w, h) \<in> set icon_sizes
      then Record INFORMATION (''Icon dimensions are fine '' @ fmt_size (w, h))
      else Record PROBLEM (''Icon should have either 256x256 or 512x512 but it has '' @ fmt_size (w, h))]"
  by (simp add: check_icon_def Let_def add_def)

lemma sizes_strs:
  "str_join '' or '' (map fmt_size fanart_sizes) = ''1280x720 or 1920x1080 or 3840x2160''"
  "str_join '' or '' (map fmt_size clearlogo_sizes) = ''400x155 or 800x310''"
  "str_join '' or '' (map fmt_size screenshot_sizes) = ''1280x720 or 1920x1080''"
  by (simp_all add: fanart_sizes_def clearlogo_sizes_def screenshot_sizes_def fmt_size_def
      str_int_def digit_char_def)

lemma check_fanart_shape:
  "check_fanart rep im fp w h = rep @
     (if snd (splitext fp) \<notin> {''.jpg'', ''.jpeg''}
      then [Record PROBLEM (''Fanart should be in the jpeg format, provided fanart is '' @ snd (splitext fp) @ ''.'')]
      else []) @
     [if (w, h) \<in> set fanart_sizes
      then Record INFORMATION (''Fanart dimensions are fine '' @ fmt_size (w, h))
      else Record PROBLEM (''Fanart should have either 1280x720 or 1920x1080 or 3840x2160 but it has ''
             @ fmt_size (w, h))]"
  by (simp add: check_fanart_def Let_def add_def sizes_strs)

lemma check_banner_shape:
  "check_banner rep im fp w h = rep @
     (if snd (splitext fp) \<notin> {''.jpg'', ''.jpeg''}
      then [Record PROBLEM (''Banner should be in the jpeg format, provided banner is '' @ snd (splitext fp) @ ''.'')]
      else []) @
     (if has_transparency im then [Record PROBLEM ''Banner should be solid. It has transparency.''] else []) @
     [if (w, h) = required_banner_size
      then Record INFORMATION (''Banner dimensions are fine '' @ fmt_size (w, h))
      else Record PROBLEM (''Banner should have 1000x185 but it has '' @ fmt_size (w, h))]"
  by (simp add: check_banner_def Let_def add_def)

lemma check_clearlogo_shape:
  "check_clearlogo rep im fp w h = rep @
     (if snd (splitext fp) \<noteq> ''.png''
      then [Record PROBLEM (''Clearlogo should be in the png format, provided clearlogo is '' @ snd (splitext fp) @ ''.'')]
      else []) @
     (if \<not> has_transparency im then [Record PROBLEM ''Clearlogo should have transparency. It is solid.''] else []) @
     [if (w, h) \<in> set clearlogo_sizes
      then Record INFORMATION (''Clearlogo dimensions are fine '' @ fmt_size (w, h))
      else Record PROBLEM (''Clearlogo should have either 400x155 or 800x310 but it has '' @ fmt_size (w, h))]"
  by (simp add: check_clearlogo_def Let_def add_def sizes_strs)

lemma check_screenshot_shape:
  "check_screenshot rep im fp w h = rep @
     (if snd (splitext fp) \<notin> {''.jpg'', ''.jpeg''}
      then [Record PROBLEM (''Screenshot should be in the jpeg format, '' @ fst (splitext fp) @ '' is ''
              @ snd (splitext fp) @ ''.'')]
      else []) @
     (if has_transparency im
      then [Record PROBLEM (''Screenshot should be solid. '' @ fst (splitext fp) @ '' has transparency.'')]
      else []) @
     [if (w, h) \<in> set screenshot_sizes
      then Record INFORMATION (''Screenshot '' @ fst (splitext fp) @ '' dimensions are fine '' @ fmt_size (w, h))
      else Record PROBLEM (''Screenshot should have either 1280x720 or 1920x1080 but '' @ fst (splitext fp)
             @ '' has '' @ fmt_size (w, h))]"
  by (simp add: check_screenshot_def Let_def add_def sizes_strs)





section \<open>The dimension diagnostic\<close>

text \<open>
  For each role, the diagnostics of the check split into those before the dimension
  diagnostic, none of which is a dimension diagnostic, and the dimension diagnostic.
\<close>

lemma icon_row:
  "\<exists>pre. (\<forall>rep. check_icon rep im fp w h = rep @ pre @
       [if (w, h) \<in> set icon_sizes
        then Record INFORMATION (''Icon dimensions are fine '' @ fmt_size (w, h))
        else Record PROBLEM (''Icon should have either 256x256 or 512x512 but it has '' @ fmt_size (w, h))]) \<and>
     Record INFORMATION (''Icon dimensions are fine '' @ fmt_size (w, h)) \<notin> set pre \<and>
     Record PROBLEM (''Icon should have either 256x256 or 512x512 but it has '' @ fmt_size (w, h)) \<notin> set pre"
  by (rule exI [of _ "(if snd (splitext fp) \<noteq> ''.png''
      then [Record PROBLEM (''Icon should be in the png format, provided icon is '' @ snd (splitext fp) @ ''.'')]
      else []) @
     (if has_transparency im then [Record PROBLEM ''Icon should be solid. It has transparency.''] else [])"])
    (simp add: check_icon_shape)

lemma fanart_row:
  "\<exists>pre. (\<forall>rep. check_fanart rep im fp w h = rep @ pre @
       [if (w, h) \<in> set fanart_sizes
        then Record INFORMATION (''Fanart dimensions are fine '' @ fmt_size (w, h))
        else Record PROBLEM (''Fanart should have either 1280x720 or 1920x1080 or 3840x2160 but it has ''
               @ fmt_size (w, h))]) \<and>
     Record INFORMATION (''Fanart dimensions are fine '' @ fmt_size (w, h)) \<notin> set pre \<and>
     Record PROBLEM (''Fanart should have either 1280x720 or 1920x1080 or 3840x2160 but it has ''
       @ fmt_size (w, h)) \<notin> set pre"
  by (rule exI [of _ "(if snd (splitext fp) \<notin> {''.jpg'', ''.jpeg''}
      then [Record PROBLEM (''Fanart should be in the jpeg format, provided fanart is '' @ snd (splitext fp) @ ''.'')]
      else [])"])
    (simp add: check_fanart_shape)

lemma banner_row:
  "\<exists>pre. (\<forall>rep. check_banner rep im fp w h = rep @ pre @
       [if (w, h) \<in> set [required_banner_size]
        then Record INFORMATION (''Banner dimensions are fine '' @ fmt_size (w, h))
        else Record PROBLEM (''Banner should have 1000x185 but it has '' @ fmt_size (w, h))]) \<and>
     Record INFORMATION (''Banner dimensions are fine '' @ fmt_size (w, h)) \<notin> set pre \<and>
     Record PROBLEM (''Banner should have 1000x185 but it has '' @ fmt_size (w, h)) \<notin> set pre"
  by (rule exI [of _ "(if snd (splitext fp) \<notin> {''.jpg'', ''.jpeg''}
      then [Record PROBLEM (''Banner should be in the jpeg format, provided banner is '' @ snd (splitext fp) @ ''.'')]
      else []) @
     (if has_transparency im then [Record PROBLEM ''Banner should be solid. It has transparency.''] else [])"])
    (simp add: check_banner_shape)

lemma clearlogo_row:
  "\<exists>pre. (\<forall>rep. check_clearlogo rep im fp w h = rep @ pre @
       [if (w, h) \<in> set clearlogo_sizes
        then Record INFORMATION (''Clearlogo dimensions are fine '' @ fmt_size (w, h))
        else Record PROBLEM (''Clearlogo should have either 400x155 or 800x310 but it has '' @ fmt_size (w, h))]) \<and>
     Record INFORMATION (''Clearlogo dimensions are fine '' @ fmt_size (w, h)) \<notin> set pre \<and>
     Record PROBLEM (''Clearlogo should have either 400x155 or 800x310 but it has '' @ fmt_size (w, h))
       \<notin> set pre"
  by (rule exI [of _ "(if snd (splitext fp) \<noteq> ''.png''
      then [Record PROBLEM (''Clearlogo should be in the png format, provided clearlogo is '' @ snd (splitext fp) @ ''.'')]
      else []) @
     (if \<not> has_transparency im then [Record PROBLEM ''Clearlogo should have transparency. It is solid.''] else [])"])
    (simp add: check_clearlogo_shape)

lemma screenshot_row:
  "\<exists>pre. (\<forall>rep. check_screenshot rep im fp w h = rep @ pre @
       [if (w, h) \<in> set screenshot_sizes
        then Record INFORMATION (''Screenshot '' @ fst (splitext fp) @ '' dimensions are fine '' @ fmt_size (w, h))
        else Record PROBLEM (''Screenshot should have either 1280x720 or 1920x1080 but '' @ fst (splitext fp)
               @ '' has '' @ fmt_size (w, h))]) \<and>
     Record INFORMATION (''Screenshot '' @ fst (splitext fp) @ '' dimensions are fine '' @ fmt_size (w, h))
       \<notin> set pre \<and>
     Record PROBLEM (''Screenshot should have either 1280x720 or 1920x1080 but '' @ fst (splitext fp)
       @ '' has '' @ fmt_size (w, h)) \<notin> set pre"
  by (rule exI [of _ "(if snd (splitext fp) \<notin> {''.jpg'', ''.jpeg''}
      then [Record PROBLEM (''Screenshot should be in the jpeg format, '' @ fst (splitext fp) @ '' is ''
              @ snd (splitext fp) @ ''.'')]
      else []) @
     (if has_transparency im
      then [Record PROBLEM (''Screenshot should be solid. '' @ fst (splitext fp) @ '' has transparency.'')]
      else [])"])
    (simp add: check_screenshot_shape)

text \<open>
  Claim C10. For each of the five roles and each candidate file that exists and
  decodes, the role's check appends exactly one dimension diagnostic, as its last
  diagnostic: the INFORMATION of the role when (width, height) is one of the role's
  accepted sizes and the PROBLEM of the role otherwise; neither of the two occurs among
  the other diagnostics of the entry. So the entry adds at least two diagnostics to the
  report: the existence INFORMATION and the dimension diagnostic.
\<close>

theorem decoded_candidate_dimension_diagnostic:
  assumes "(role, cb) \<in> set art_assets"
    and "img \<noteq> []"
    and "isfile ext (path_join addon_path img)"
    and "Image_open ext (path_join addon_path img) = Inr im"
    and "size im = (width, height)"
  shows "\<exists>sizes fine bad gate pre.
     (role, cb, sizes, fine, bad) \<in> set
       [(''icon'', check_icon, icon_sizes,
           ''Icon dimensions are fine '' @ fmt_size (width, height),
           ''Icon should have either 256x256 or 512x512 but it has '' @ fmt_size (width, height)),
        (''fanart'', check_fanart, fanart_sizes,
           ''Fanart dimensions are fine '' @ fmt_size (width, height),
           ''Fanart should have either 1280x720 or 1920x1080 or 3840x2160 but it has ''
             @ fmt_size (width, height)),
        (''screenshot'', check_screenshot, screenshot_sizes,
           ''Screenshot '' @ fst (splitext (path_join addon_path img)) @ '' dimensions are fine ''
             @ fmt_size (width, height),
           ''Screenshot should have either 1280x720 or 1920x1080 but ''
             @ fst (splitext (path_join addon_path img)) @ '' has '' @ fmt_size (width, height)),
        (''banner'', check_banner, [required_banner_size],
           ''Banner dimensions are fine '' @ fmt_size (width, height),
           ''Banner should have 1000x185 but it has '' @ fmt_size (width, height)),
        (''clearlogo'', check_clearlogo, clearlogo_sizes,
           ''Clearlogo dimensions are fine '' @ fmt_size (width, height),
           ''Clearlogo should have either 400x155 or 800x310 but it has '' @ fmt_size (width, height))] \<and>
     cb rep im (path_join addon_path img) width height =
       rep @ pre @
       [if (width, height) \<in> set sizes then Record INFORMATION fine else Record PROBLEM bad] \<and>
     sink (world_of (check_image ext role cb fallback addon_path kodi_version (Some img) w)) =
       sink w @ [Record INFORMATION (''Image '' @ role @ '' exists'')] @ gate @ pre @
       [if (width, height) \<in> set sizes then Record INFORMATION fine else Record PROBLEM bad] \<and>
     Record INFORMATION fine \<notin> set ([Record INFORMATION (''Image '' @ role @ '' exists'')] @ gate @ pre) \<and>
     Record PROBLEM bad \<notin> set ([Record INFORMATION (''Image '' @ role @ '' exists'')] @ gate @ pre) \<and>
     length (sink w) + 2 \<le>
       length (sink (world_of (check_image ext role cb fallback addon_path kodi_version (Some img) w))) \<and>
     raised_of (check_image ext role cb fallback addon_path kodi_version (Some img) w) = None"
proof -
  define fp where "fp = path_join addon_path img"
  define gate where "gate =
     (if fallback \<and> version_ge ext kodi_version ''krypton''
      then [Record PROBLEM (''Image '' @ role @ '' should be explicitly declared in addon.xml <assets>.'')]
      else [])"
  have run: "sink (world_of (check_image ext role cb fallback addon_path kodi_version (Some img) w)) =
      cb (sink w @ [Record INFORMATION (''Image '' @ role @ '' exists'')] @ gate) im fp width height"
    using check_image_decoded [OF assms(2,3,4)] assms(5) by (simp add: gate_def fp_def)
  have combine: ?thesis
    if row: "(\<forall>rep. cb rep im fp width height = rep @ pre @
                [if (width, height) \<in> set sizes then Record INFORMATION fine else Record PROBLEM bad])"
      and notin: "Record INFORMATION fine \<notin> set pre" "Record PROBLEM bad \<notin> set pre"
      and head: "Record INFORMATION fine \<noteq> Record INFORMATION (''Image '' @ role @ '' exists'')"
        "bad \<noteq> ''Image '' @ role @ '' should be explicitly declared in addon.xml <assets>.''"
      and mem: "(role, cb, sizes, fine, bad) \<in> set
       [(''icon'', check_icon, icon_sizes,
           ''Icon dimensions are fine '' @ fmt_size (width, height),
           ''Icon should have either 256x256 or 512x512 but it has '' @ fmt_size (width, height)),
        (''fanart'', check_fanart, fanart_sizes,
           ''Fanart dimensions are fine '' @ fmt_size (width, height),
           ''Fanart should have either 1280x720 or 1920x1080 or 3840x2160 but it has ''
             @ fmt_size (width, height)),
        (''screenshot'', check_screenshot, screenshot_sizes,
           ''Screenshot '' @ fst (splitext (path_join addon_path img)) @ '' dimensions are fine ''
             @ fmt_size (width, height),
           ''Screenshot should have either 1280x720 or 1920x1080 but ''
             @ fst (splitext (path_join addon_path img)) @ '' has '' @ fmt_size (width, height)),
        (''banner'', check_banner, [required_banner_size],
           ''Banner dimensions are fine '' @ fmt_size (width, height),
           ''Banner should have 1000x185 but it has '' @ fmt_size (width, height)),
        (''clearlogo'', check_clearlogo, clearlogo_sizes,
           ''Clearlogo dimensions are fine '' @ fmt_size (width, height),
           ''Clearlogo should have either 400x155 or 800x310 but it has '' @ fmt_size (width, height))]"
    for sizes fine bad pre
  proof -
    have a: "cb rep im (path_join addon_path img) width height =
       rep @ pre @
       [if (width, height) \<in> set sizes then Record INFORMATION fine else Record PROBLEM bad]"
      using row by (simp add: fp_def)
    have b: "sink (world_of (check_image ext role cb fallback addon_path kodi_version (Some img) w)) =
       sink w @ [Record INFORMATION (''Image '' @ role @ '' exists'')] @ gate @ pre @
       [if (width, height) \<in> set sizes then Record INFORMATION fine else Record PROBLEM bad]"
      unfolding run using row by simp
    have c: "Record INFORMATION fine \<notin>
        set ([Record INFORMATION (''Image '' @ role @ '' exists'')] @ gate @ pre)"
      using notin head by (simp add: gate_def)
    have d: "Record PROBLEM bad \<notin>
        set ([Record INFORMATION (''Image '' @ role @ '' exists'')] @ gate @ pre)"
      using notin head by (simp add: gate_def)
    have e: "length (sink w) + 2 \<le>
       length (sink (world_of (check_image ext role cb fallback addon_path kodi_version (Some img) w)))"
      unfolding b by simp
    have g: "raised_of (check_image ext role cb fallback addon_path kodi_version (Some img) w) = None"
      by (simp add: check_image_decoded [OF assms(2,3,4)])
    from mem a b c d e g show ?thesis by blast
  qed
  from assms(1) have "(role = ''icon'' \<and> cb = check_icon) \<or> (role = ''fanart'' \<and> cb = check_fanart) \<or>
      (role = ''screenshot'' \<and> cb = check_screenshot) \<or> (role = ''banner'' \<and> cb = check_banner) \<or>
      (role = ''clearlogo'' \<and> cb = check_clearlogo)"
    by (simp add: art_assets_def)
  then consider
    "role = ''icon''" "cb = check_icon" | "role = ''fanart''" "cb = check_fanart" |
    "role = ''screenshot''" "cb = check_screenshot" | "role = ''banner''" "cb = check_banner" |
    "role = ''clearlogo''" "cb = check_clearlogo"
    by (elim disjE conjE)
  then show ?thesis
  proof cases
    case 1
    obtain pre where "\<forall>rep. check_icon rep im fp width height = rep @ pre @
       [if (width, height) \<in> set icon_sizes
        then Record INFORMATION (''Icon dimensions are fine '' @ fmt_size (width, height))
        else Record PROBLEM (''Icon should have either 256x256 or 512x512 but it has ''
               @ fmt_size (width, height))]"
      "Record INFORMATION (''Icon dimensions are fine '' @ fmt_size (width, height)) \<notin> set pre"
      "Record PROBLEM (''Icon should have either 256x256 or 512x512 but it has ''
         @ fmt_size (width, height)) \<notin> set pre"
      using icon_row [of im fp width height] by blast
    then show ?thesis using 1 by (intro combine [of pre icon_sizes]) simp_all
  next
    case 2
    obtain pre where "\<forall>rep. check_fanart rep im fp width height = rep @ pre @
       [if (width, height) \<in> set fanart_sizes
        then Record INFORMATION (''Fanart dimensions are fine '' @ fmt_size (width, height))
        else Record PROBLEM (''Fanart should have either 1280x720 or 1920x1080 or 3840x2160 but it has ''
               @ fmt_size (width, height))]"
      "Record INFORMATION (''Fanart dimensions are fine '' @ fmt_size (width, height)) \<notin> set pre"
      "Record PROBLEM (''Fanart should have either 1280x720 or 1920x1080 or 3840x2160 but it has ''
         @ fmt_size (width, height)) \<notin> set pre"
      using fanart_row [of im fp width height] by blast
    then show ?thesis using 2 by (intro combine [of pre fanart_sizes]) simp_all
  next
    case 3
    obtain pre where "\<forall>rep. check_screenshot rep im fp width height = rep @ pre @
       [if (width, height) \<in> set screenshot_sizes
        then Record INFORMATION (''Screenshot '' @ fst (splitext fp) @ '' dimensions are fine ''
               @ fmt_size (width, height))
        else Record PROBLEM (''Screenshot should have either 1280x720 or 1920x1080 but ''
               @ fst (splitext fp) @ '' has '' @ fmt_size (width, height))]"
      "Record INFORMATION (''Screenshot '' @ fst (splitext fp) @ '' dimensions are fine ''
         @ fmt_size (width, height)) \<notin> set pre"
      "Record PROBLEM (''Screenshot should have either 1280x720 or 1920x1080 but ''
         @ fst (splitext fp) @ '' has '' @ fmt_size (width, height)) \<notin> set pre"
      using screenshot_row [of im fp width height] by blast
    then show ?thesis using 3 by (intro combine [of pre screenshot_sizes]) (simp_all add: fp_def)
  next
    case 4
    obtain pre where "\<forall>rep. check_banner rep im fp width height = rep @ pre @
       [if (width, height) \<in> set [required_banner_size]
        then Record INFORMATION (''Banner dimensions are fine '' @ fmt_size (width, height))
        else Record PROBLEM (''Banner should have 1000x185 but it has '' @ fmt_size (width, height))]"
      "Record INFORMATION (''Banner dimensions are fine '' @ fmt_size (width, height)) \<notin> set pre"
      "Record PROBLEM (''Banner should have 1000x185 but it has '' @ fmt_size (width, height)) \<notin> set pre"
      using banner_row [of im fp width height] by blast
    then show ?thesis using 4 by (intro combine [of pre "[required_banner_size]"]) simp_all
  next
    case 5
    obtain pre where "\<forall>rep. check_clearlogo rep im fp width height = rep @ pre @
       [if (width, height) \<in> set clearlogo_sizes
        then Record INFORMATION (''Clearlogo dimensions are fine '' @ fmt_size (width, height))
        else Record PROBLEM (''Clearlogo should have either 400x155 or 800x310 but it has ''
               @ fmt_size (width, height))]"
      "Record INFORMATION (''Clearlogo dimensions are fine '' @ fmt_size (width, height)) \<notin> set pre"
      "Record PROBLEM (''Clearlogo should have either 400x155 or 800x310 but it has ''
         @ fmt_size (width, height)) \<notin> set pre"
      using clearlogo_row [of im fp width height] by blast
    then show ?thesis using 5 by (intro combine [of pre clearlogo_sizes]) simp_all
  qed
qed

theorem decoded_candidate_dimension_diagnostic_witness:
  "last (sink (world_of (check_image sample_ext ''icon'' check_icon True ''/addon'' ''leia'' (Some ''icon.png'') fresh))) =
     Record INFORMATION ''Icon dimensions are fine 256x256'' \<and>
   2 \<le> length (sink (world_of (check_image sample_ext ''icon'' check_icon True ''/addon'' ''leia'' (Some ''icon.png'') fresh)))"
proof -
  have a: "(''icon'', check_icon) \<in> set art_assets" by (simp add: art_assets_def)
  have b: "''icon.png'' \<noteq> []" by simp
  have c: "isfile sample_ext (path_join ''/addon'' ''icon.png'')"
    by (simp add: sample_defs path_defs)
  have d: "Image_open sample_ext (path_join ''/addon'' ''icon.png'') =
      Inr \<lparr>size = (256, 256), transparent = False\<rparr>"
    by (simp add: sample_defs path_defs)
  have e: "size \<lparr>size = (256, 256), transparent = False\<rparr> = (256, 256)" by simp
  have f: "fmt_size (256, 256) = ''256x256''"
    by (simp add: fmt_size_def str_int_def digit_char_def)
  show ?thesis
    using decoded_candidate_dimension_diagnostic [OF a b c d e, of "[]" True "''leia''" fresh]
    by (auto simp: icon_sizes_def f)
qed

section \<open>The icon rule\<close>

text \<open>
  Claim C8. The three checks of the icon rule are independent: the format PROBLEM
  depends on the extension alone, the transparency PROBLEM on the opacity alone and the
  dimension diagnostic on (width, height) alone. An icon of 300x300 with extension
  \<open>.jpg\<close> and transparency gets the three PROBLEMs from the one call of the rule; an
  opaque icon of 256x256 with extension \<open>.png\<close> gets the INFORMATION
  \<open>Icon dimensions are fine 256x256\<close> and no PROBLEM.
\<close>

theorem check_icon_independent_checks:
  "check_icon rep im fp w h = rep @
     (if snd (splitext fp) \<noteq> ''.png''
      then [Record PROBLEM (''Icon should be in the png format, provided icon is '' @ snd (splitext fp) @ ''.'')]
      else []) @
     (if has_transparency im then [Record PROBLEM ''Icon should be solid. It has transparency.''] else []) @
     [if (w, h) \<in> {(256, 256), (512, 512)}
      then Record INFORMATION (''Icon dimensions are fine '' @ fmt_size (w, h))
      else Record PROBLEM (''Icon should have either 256x256 or 512x512 but it has '' @ fmt_size (w, h))] \<and>
   (snd (splitext fp) = ''.jpg'' \<and> has_transparency im \<longrightarrow>
      check_icon rep im fp 300 300 = rep @
        [Record PROBLEM ''Icon should be in the png format, provided icon is .jpg.'',
         Record PROBLEM ''Icon should be solid. It has transparency.'',
         Record PROBLEM ''Icon should have either 256x256 or 512x512 but it has 300x300'']) \<and>
   (snd (splitext fp) = ''.png'' \<and> \<not> has_transparency im \<longrightarrow>
      check_icon rep im fp 256 256 = rep @ [Record INFORMATION ''Icon dimensions are fine 256x256''])"
proof -
  have f: "fmt_size (256, 256) = ''256x256''" "fmt_size (300, 300) = ''300x300''"
    by (simp_all add: fmt_size_def str_int_def digit_char_def)
  show ?thesis
    by (simp add: check_icon_shape icon_sizes_def f)
qed

theorem check_icon_independent_checks_witness:
  "check_icon [] \<lparr>size = (300, 300), transparent = True\<rparr> ''/addon/icon.jpg'' 300 300 =
     [Record PROBLEM ''Icon should be in the png format, provided icon is .jpg.'',
      Record PROBLEM ''Icon should be solid. It has transparency.'',
      Record PROBLEM ''Icon should have either 256x256 or 512x512 but it has 300x300''] \<and>
   check_icon [] \<lparr>size = (256, 256), transparent = False\<rparr> ''/addon/icon.png'' 256 256 =
     [Record INFORMATION ''Icon dimensions are fine 256x256'']"
proof -
  have a: "snd (splitext ''/addon/icon.jpg'') = ''.jpg''" "snd (splitext ''/addon/icon.png'') = ''.png''"
    by (simp_all add: splitext_def rfind_def Let_def)
  show ?thesis
    using check_icon_independent_checks [of "[]" "\<lparr>size = (300, 300), transparent = True\<rparr>"
        "''/addon/icon.jpg''" 300 300, THEN conjunct2, THEN conjunct1]
      check_icon_independent_checks [of "[]" "\<lparr>size = (256, 256), transparent = False\<rparr>"
        "''/addon/icon.png''" 256 256, THEN conjunct2, THEN conjunct2]
    by (simp add: a has_transparency_def)
qed

section \<open>The screenshot rule and transparency\<close>

text \<open>
  The screenshot rule is not indifferent to transparency. In the sample addon the
  declared screenshot \<open>resources/shot.jpg\<close> exists and decodes to a 1280x720 image with
  transparency, and the validator reports the PROBLEM
  \<open>Screenshot should be solid. ... has transparency.\<close> for it (lines 232 to 234).
\<close>

theorem screenshot_transparency_counterexample:
  "isfile sample_ext ''/addon/resources/shot.jpg'' \<and>
   Image_open sample_ext ''/addon/resources/shot.jpg'' = Inr \<lparr>size = (1280, 720), transparent = True\<rparr> \<and>
   check_image sample_ext ''screenshot'' check_screenshot False ''/addon'' ''leia''
       (Some ''resources/shot.jpg'') fresh =
     Returned \<lparr>sink = [Record INFORMATION ''Image screenshot exists'',
              Record PROBLEM ''Screenshot should be solid. /addon/resources/shot has transparency.'',
              Record INFORMATION ''Screenshot /addon/resources/shot dimensions are fine 1280x720''],
      accesses = [IsFile ''/addon/resources/shot.jpg'', ImageOpen ''/addon/resources/shot.jpg'']\<rparr>"
proof -
  have p: "path_join ''/addon'' ''resources/shot.jpg'' = ''/addon/resources/shot.jpg''"
    by (simp add: path_defs)
  have a: "isfile sample_ext ''/addon/resources/shot.jpg''"
    by (simp add: sample_defs)
  have b: "Image_open sample_ext ''/addon/resources/shot.jpg'' =
      Inr \<lparr>size = (1280, 720), transparent = True\<rparr>"
    by (simp add: sample_defs)
  have s: "splitext ''/addon/resources/shot.jpg'' = (''/addon/resources/shot'', ''.jpg'')"
    by (simp add: splitext_def rfind_def Let_def)
  have f: "fmt_size (1280, 720) = ''1280x720''"
    by (simp add: fmt_size_def str_int_def digit_char_def)
  have c: "check_screenshot [Record INFORMATION ''Image screenshot exists'']
      \<lparr>size = (1280, 720), transparent = True\<rparr> ''/addon/resources/shot.jpg'' 1280 720 =
     [Record INFORMATION ''Image screenshot exists'',
      Record PROBLEM ''Screenshot should be solid. /addon/resources/shot has transparency.'',
      Record INFORMATION ''Screenshot /addon/resources/shot dimensions are fine 1280x720'']"
    by (simp add: check_screenshot_shape s f has_transparency_def screenshot_sizes_def)
  have d: "check_image sample_ext ''screenshot'' check_screenshot False ''/addon'' ''leia''
       (Some ''resources/shot.jpg'') fresh =
     Returned \<lparr>sink = [Record INFORMATION ''Image screenshot exists'',
              Record PROBLEM ''Screenshot should be solid. /addon/resources/shot has transparency.'',
              Record INFORMATION ''Screenshot /addon/resources/shot dimensions are fine 1280x720''],
      accesses = [IsFile ''/addon/resources/shot.jpg'', ImageOpen ''/addon/resources/shot.jpg'']\<rparr>"
    using check_image_decoded [of "''resources/shot.jpg''" sample_ext "''/addon''"
        "\<lparr>size = (1280, 720), transparent = True\<rparr>" "''screenshot''" check_screenshot False "''leia''" fresh]
      a b
    by (simp add: p c fresh_def)
  from a b d show ?thesis by simp
qed

text \<open>
  Claim C1, as amended. For a screenshot candidate that exists and decodes, the rule
  requires an opaque image: the validator adds the PROBLEM
  \<open>Screenshot should be solid. <filename> has transparency.\<close> exactly once when the
  opacity detector finds transparency in the decoded image, and not at all when it
  finds none.
\<close>

theorem screenshot_must_be_opaque:
  assumes "img \<noteq> []"
    and "isfile ext (path_join addon_path img)"
    and "Image_open ext (path_join addon_path img) = Inr im"
  shows "raised_of (check_image ext ''screenshot'' check_screenshot fallback addon_path kodi_version
       (Some img) w) = None \<and>
   (\<exists>before after.
     sink (world_of (check_image ext ''screenshot'' check_screenshot fallback addon_path kodi_version (Some img) w)) =
       sink w @ before @
       (if has_transparency im
        then [Record PROBLEM (''Screenshot should be solid. ''
                @ fst (splitext (path_join addon_path img)) @ '' has transparency.'')]
        else []) @ after \<and>
     Record PROBLEM (''Screenshot should be solid. ''
        @ fst (splitext (path_join addon_path img)) @ '' has transparency.'') \<notin> set before \<and>
     Record PROBLEM (''Screenshot should be solid. ''
        @ fst (splitext (path_join addon_path img)) @ '' has transparency.'') \<notin> set after)"
proof -
  define fp where "fp = path_join addon_path img"
  define before where "before =
     [Record INFORMATION ''Image screenshot exists''] @
     (if fallback \<and> version_ge ext kodi_version ''krypton''
      then [Record PROBLEM ''Image screenshot should be explicitly declared in addon.xml <assets>.'']
      else []) @
     (if snd (splitext fp) \<notin> {''.jpg'', ''.jpeg''}
      then [Record PROBLEM (''Screenshot should be in the jpeg format, '' @ fst (splitext fp) @ '' is ''
              @ snd (splitext fp) @ ''.'')]
      else [])"
  define after where "after =
     [if (fst (size im), snd (size im)) \<in> set screenshot_sizes
      then Record INFORMATION (''Screenshot '' @ fst (splitext fp) @ '' dimensions are fine ''
             @ fmt_size (fst (size im), snd (size im)))
      else Record PROBLEM (''Screenshot should have either 1280x720 or 1920x1080 but '' @ fst (splitext fp)
             @ '' has '' @ fmt_size (fst (size im), snd (size im)))]"
  have run: "sink (world_of (check_image ext ''screenshot'' check_screenshot fallback addon_path kodi_version (Some img) w)) =
       sink w @ before @
       (if has_transparency im
        then [Record PROBLEM (''Screenshot should be solid. '' @ fst (splitext fp) @ '' has transparency.'')]
        else []) @ after"
    by (simp add: check_image_decoded [OF assms] check_screenshot_shape before_def after_def fp_def)
  have b: "Record PROBLEM (''Screenshot should be solid. '' @ fst (splitext fp) @ '' has transparency.'')
      \<notin> set before"
    by (simp add: before_def)
  have a: "Record PROBLEM (''Screenshot should be solid. '' @ fst (splitext fp) @ '' has transparency.'')
      \<notin> set after"
    by (simp add: after_def)
  have r: "raised_of (check_image ext ''screenshot'' check_screenshot fallback addon_path kodi_version
       (Some img) w) = None"
    by (simp add: check_image_decoded [OF assms])
  from run a b r show ?thesis unfolding fp_def by blast
qed

theorem screenshot_must_be_opaque_witness:
  "\<exists>before after.
     sink (world_of (check_image sample_ext ''screenshot'' check_screenshot False ''/addon'' ''leia''
        (Some ''resources/shot.jpg'') fresh)) =
       before @ [Record PROBLEM ''Screenshot should be solid. /addon/resources/shot has transparency.'']
         @ after \<and>
     Record PROBLEM ''Screenshot should be solid. /addon/resources/shot has transparency.'' \<notin> set before \<and>
     Record PROBLEM ''Screenshot should be solid. /addon/resources/shot has transparency.'' \<notin> set after"
proof -
  have p: "path_join ''/addon'' ''resources/shot.jpg'' = ''/addon/resources/shot.jpg''"
    by (simp add: path_defs)
  have a: "''resources/shot.jpg'' \<noteq> []" by simp
  have b: "isfile sample_ext (path_join ''/addon'' ''resources/shot.jpg'')"
    by (simp add: sample_defs p)
  have c: "Image_open sample_ext (path_join ''/addon'' ''resources/shot.jpg'') =
      Inr \<lparr>size = (1280, 720), transparent = True\<rparr>"
    by (simp add: sample_defs p)
  have s: "splitext ''/addon/resources/shot.jpg'' = (''/addon/resources/shot'', ''.jpg'')"
    by (simp add: splitext_def rfind_def Let_def)
  show ?thesis
    using screenshot_must_be_opaque [OF a b c, of False "''leia''" fresh]
    by (simp add: p s has_transparency_def fresh_def)
qed

section \<open>Repeated runs\<close>

text \<open>
  The report a step leaves, and the exception it raises if any, depend on the report
  it found and on the inputs, not on the trace of file-system calls made before.
\<close>

lemma py_for_sink_cong:
  assumes step: "\<And>x w w'. sink w = sink w' \<Longrightarrow>
      sink (world_of (f x w)) = sink (world_of (f x w')) \<and> raised_of (f x w) = raised_of (f x w')"
    and "sink w = sink w'"
  shows "sink (world_of (py_for f xs w)) = sink (world_of (py_for f xs w')) \<and>
         raised_of (py_for f xs w) = raised_of (py_for f xs w')"
  using assms(2)
proof (induction xs arbitrary: w w')
  case Nil
  then show ?case by simp
next
  case (Cons x xs)
  from Cons.prems have s: "sink (world_of (f x w)) = sink (world_of (f x w'))"
    "raised_of (f x w) = raised_of (f x w')"
    using step by blast+
  show ?case
  proof (cases "f x w")
    case (Returned w1)
    with s(2) obtain w1' where r': "f x w' = Returned w1'" by (cases "f x w'") auto
    from s(1) Returned r' have "sink w1 = sink w1'" by simp
    then have "sink (world_of (py_for f xs w1)) = sink (world_of (py_for f xs w1')) \<and>
         raised_of (py_for f xs w1) = raised_of (py_for f xs w1')"
      by (rule Cons.IH)
    then show ?thesis by (simp add: Returned r')
  next
    case (Raised e w1)
    with s(2) obtain w1' where r': "f x w' = Raised e w1'" by (cases "f x w'") auto
    from s(1) Raised r' show ?thesis by simp
  qed
qed

lemma check_image_sink_cong:
  assumes "sink w = sink w'"
  shows "sink (world_of (check_image ext role cb fallback addon_path kodi_version entry w)) =
         sink (world_of (check_image ext role cb fallback addon_path kodi_version entry w')) \<and>
         raised_of (check_image ext role cb fallback addon_path kodi_version entry w) =
         raised_of (check_image ext role cb fallback addon_path kodi_version entry w')"
proof (cases "entry = None \<or> entry = Some []")
  case True
  then show ?thesis using assms by (simp add: check_image_absent)
next
  case False
  then obtain img where e: "entry = Some img" "img \<noteq> []" by (cases entry) auto
  show ?thesis
  proof (cases "isfile ext (path_join addon_path img)")
    case nofile: False
    then show ?thesis using assms e by (simp add: check_image_missing)
  next
    case isfile: True
    show ?thesis
    proof (cases "Image_open ext (path_join addon_path img)")
      case (Inl x)
      show ?thesis
      proof (cases x)
        case IOError
        with Inl show ?thesis
          using assms by (simp add: e check_image_undecodable [OF e(2) isfile])
      next
        case (OtherError c)
        with Inl show ?thesis
          using assms by (simp add: e check_image_refused [OF e(2) isfile])
      qed
    next
      case (Inr im)
      show ?thesis
        using assms by (simp add: e check_image_decoded [OF e(2) isfile Inr])
    qed
  qed
qed

lemma check_image_type_sink_cong:
  assumes "sink w = sink w'"
  shows "sink (world_of (check_image_type ext w asset parsed_xml addon_path kodi_version)) =
         sink (world_of (check_image_type ext w' asset parsed_xml addon_path kodi_version)) \<and>
         raised_of (check_image_type ext w asset parsed_xml addon_path kodi_version) =
         raised_of (check_image_type ext w' asset parsed_xml addon_path kodi_version)"
proof -
  obtain fallback images where a: "assests (fst asset) parsed_xml addon_path = (fallback, images)"
    by (cases "assests (fst asset) parsed_xml addon_path") simp
  have "sink (world_of (py_for (check_image ext (fst asset) (snd asset) fallback addon_path kodi_version)
            images w)) =
        sink (world_of (py_for (check_image ext (fst asset) (snd asset) fallback addon_path kodi_version)
            images w')) \<and>
        raised_of (py_for (check_image ext (fst asset) (snd asset) fallback addon_path kodi_version)
            images w) =
        raised_of (py_for (check_image ext (fst asset) (snd asset) fallback addon_path kodi_version)
            images w')"
    using assms by (rule py_for_sink_cong [rotated]) (rule check_image_sink_cong)
  then show ?thesis
    by (simp add: check_image_type_def a)
qed

lemma check_file_sink_cong:
  assumes "sink w = sink w'"
  shows "sink (world_of (check_file ext file w)) = sink (world_of (check_file ext file w')) \<and>
         raised_of (check_file ext file w) = raised_of (check_file ext file w')"
  using assms
  by (simp add: check_file_def emit_def touch_def Let_def split: sum.splits py_exception.splits)

lemma check_artwork_sink_cong:
  assumes "sink w = sink w'"
  shows "sink (world_of (check_artwork ext w addon_path parsed_xml file_index kodi_version)) =
         sink (world_of (check_artwork ext w' addon_path parsed_xml file_index kodi_version)) \<and>
         raised_of (check_artwork ext w addon_path parsed_xml file_index kodi_version) =
         raised_of (check_artwork ext w' addon_path parsed_xml file_index kodi_version)"
proof -
  let ?roles = "py_for (\<lambda>asset w'. check_image_type ext w' asset parsed_xml addon_path kodi_version)
      art_assets"
  have r: "sink (world_of (?roles w)) = sink (world_of (?roles w')) \<and>
      raised_of (?roles w) = raised_of (?roles w')"
    using assms by (rule py_for_sink_cong [rotated]) (rule check_image_type_sink_cong)
  show ?thesis
  proof (cases "?roles w")
    case (Returned w1)
    with r obtain w1' where r': "?roles w' = Returned w1'" by (cases "?roles w'") auto
    from r Returned r' have "sink w1 = sink w1'" by simp
    then have "sink (world_of (py_for (check_file ext) file_index w1)) =
        sink (world_of (py_for (check_file ext) file_index w1')) \<and>
        raised_of (py_for (check_file ext) file_index w1) =
        raised_of (py_for (check_file ext) file_index w1')"
      by (rule py_for_sink_cong [rotated]) (rule check_file_sink_cong)
    then show ?thesis by (simp add: check_artwork_def Returned r')
  next
    case (Raised e w1)
    with r obtain w1' where r': "?roles w' = Raised e w1'" by (cases "?roles w'") auto
    from r Raised r' show ?thesis by (simp add: check_artwork_def)
  qed
qed

text \<open>
  Claim C9. For a fixed file system, manifest, file index, addon path and platform
  version, a second run that starts with an empty report in the world the first run
  left behind produces the same sequence of diagnostics, in the same order, as the
  first run did from the fresh world, and ends the same way (it returns, or the same
  exception leaves it).
\<close>

theorem check_artwork_deterministic:
  "sink (world_of (check_artwork ext
           ((world_of (check_artwork ext fresh addon_path parsed_xml file_index kodi_version))\<lparr>sink := []\<rparr>)
           addon_path parsed_xml file_index kodi_version)) =
   sink (world_of (check_artwork ext fresh addon_path parsed_xml file_index kodi_version)) \<and>
   raised_of (check_artwork ext
           ((world_of (check_artwork ext fresh addon_path parsed_xml file_index kodi_version))\<lparr>sink := []\<rparr>)
           addon_path parsed_xml file_index kodi_version) =
   raised_of (check_artwork ext fresh addon_path parsed_xml file_index kodi_version)"
  by (rule check_artwork_sink_cong) (simp add: fresh_def)

section \<open>The loose-image scan\<close>

text \<open>
  Claim C2. The scan is to open every record whose name ends with \<open>.png\<close>, \<open>.jpg\<close>,
  \<open>.jpeg\<close> or \<open>.gif\<close> and is not exactly \<open>fanart.jpg\<close> or \<open>icon.png\<close>, and to
  report it with one PROBLEM when it cannot be decoded. The code does not: the pattern
  is matched from the start of the name and its lookahead has no end anchor, so it
  rejects every name that begins with \<open>fanart.jpg\<close> or \<open>icon.png\<close>. The file
  \<open>resources/fanart.jpg.png\<close> of the sample addon exists, ends with \<open>.png\<close>, is
  neither \<open>fanart.jpg\<close> nor \<open>icon.png\<close> and cannot be decoded; the pattern does not
  match its name, and the scan returns without opening or reporting it. The equally
  undecodable \<open>resources/broken.jpg\<close> is opened and reported.
\<close>

theorem check_file_skips_prefixed_name:
  "isfile sample_ext (path_join ''/addon/resources'' ''fanart.jpg.png'') \<and>
   endswith ''fanart.jpg.png'' ''.png'' \<and>
   ''fanart.jpg.png'' \<noteq> ''fanart.jpg'' \<and> ''fanart.jpg.png'' \<noteq> ''icon.png'' \<and>
   Image_open sample_ext (path_join ''/addon/resources'' ''fanart.jpg.png'') = Inl IOError \<and>
   re_match image_name_rx ''fanart.jpg.png'' = False \<and>
   check_file sample_ext \<lparr>name = ''fanart.jpg.png'', path = ''/addon/resources''\<rparr> fresh =
     Returned fresh \<and>
   check_file sample_ext \<lparr>name = ''broken.jpg'', path = ''/addon/resources''\<rparr> fresh =
     Returned \<lparr>sink = [Record PROBLEM
                 ''Could not open image, is the file corrupted ? ./resources/broken.jpg''],
               accesses = [ImageOpen ''/addon/resources/broken.jpg'']\<rparr>"
proof -
  have m: "re_match image_name_rx ''fanart.jpg.png'' = False"
    by (simp add: re_match_def image_name_rx_def startswith_def)
  have b: "re_match image_name_rx ''broken.jpg''"
    by (simp add: re_match_def image_name_rx_def startswith_def newline_def)
  have p: "path_join ''/addon/resources'' ''fanart.jpg.png'' = ''/addon/resources/fanart.jpg.png''"
    "path_join ''/addon/resources'' ''broken.jpg'' = ''/addon/resources/broken.jpg''"
    by (simp_all add: path_defs)
  show ?thesis
    by (simp add: check_file_def m b p endswith_def sample_defs emit_def touch_def add_def)
qed

end
